theory Spec2Isabelle
  imports Main "HOL-Library.Sublist"
begin

chapter \<open>The course-completion webhook of the credentials service\<close>

text \<open>
  The handler \<^verbatim>\<open>POST\<close> of \<^verbatim>\<open>src/pages/api/webhooks/course-completion.ts\<close> with the modules
  it calls: badge resolution, the person and award upserts on the datastore, certificate
  generation (both variants of \<^verbatim>\<open>certificatePdf\<close> in the sources) and the email
  notification. Asynchronous calls are run in the order the handler awaits them. The state
  outside the handler (datastore tables, object storage, messages handed to the email
  provider, the cached clients) is a record that every step takes and returns; what the
  outside world decides (failures, generated ids, the clock, rendering) is a second record
  that the handler only reads. An exception is a value: \<open>Inl\<close> of a sum, or \<open>Threw\<close> where
  it leaves the handler.
\<close>

section \<open>Strings\<close>

text \<open>
  Text is modelled as a list of ASCII code units. \<open>trim\<close> strips the ASCII white space and
  line terminators of ECMAScript (tab, line feed, vertical tab, form feed, carriage return,
  space) from both ends; \<open>toLowerCase\<close> and \<open>toUpperCase\<close> map the 26 ASCII letters and leave
  every other character alone.
\<close>

definition upper_letters :: string where
  "upper_letters = ''ABCDEFGHIJKLMNOPQRSTUVWXYZ''"

definition lower_letters :: string where
  "lower_letters = ''abcdefghijklmnopqrstuvwxyz''"

definition toLowerCase :: "string \<Rightarrow> string" where
  "toLowerCase s =
     map (\<lambda>c. case map_of (zip upper_letters lower_letters) c of Some d \<Rightarrow> d | None \<Rightarrow> c) s"

definition toUpperCase :: "string \<Rightarrow> string" where
  "toUpperCase s =
     map (\<lambda>c. case map_of (zip lower_letters upper_letters) c of Some d \<Rightarrow> d | None \<Rightarrow> c) s"

definition is_white_space :: "char \<Rightarrow> bool" where
  "is_white_space c \<longleftrightarrow>
     c \<in> set [CHR 0x09, CHR 0x0A, CHR 0x0B, CHR 0x0C, CHR 0x0D, CHR '' '']"

definition trim :: "string \<Rightarrow> string" where
  "trim s = rev (dropWhile is_white_space (rev (dropWhile is_white_space s)))"

text \<open>\<open>includes_str s p\<close> is \<^verbatim>\<open>s.includes(p)\<close>: \<open>p\<close> occurs in \<open>s\<close> as a contiguous run.\<close>

fun includes_str :: "string \<Rightarrow> string \<Rightarrow> bool" where
  "includes_str [] p = (p = [])"
| "includes_str (c # cs) p = (prefix p (c # cs) \<or> includes_str cs p)"

section \<open>Badge resolution (course-completion.ts, lines 38-85)\<close>

text \<open>The alias table, in the order of the source.\<close>

definition COURSE_TO_BADGE_SLUG :: "(string \<times> string) list" where
  "COURSE_TO_BADGE_SLUG =
     [(''green-software-practitioner'', ''green-software-practitioner''),
      (''green software practitioner'', ''green-software-practitioner''),
      (''green-software-for-practitioners'', ''green-software-practitioner''),
      (''green software for practitioners'', ''green-software-practitioner''),
      (''gsp'', ''green-software-practitioner''),
      (''sustainable-cloud-specialist'', ''sustainable-cloud-specialist''),
      (''sustainable cloud specialist'', ''sustainable-cloud-specialist''),
      (''scs'', ''sustainable-cloud-specialist'')]"

definition DEFAULT_BADGE_SLUG :: string where
  "DEFAULT_BADGE_SLUG = ''green-software-practitioner''"

text \<open>
  The table is a plain object literal, so \<^verbatim>\<open>COURSE_TO_BADGE_SLUG[candidate]\<close> also finds the
  members every object inherits from \<^verbatim>\<open>Object.prototype\<close>. Those values are functions (or,
  for \<^verbatim>\<open>__proto__\<close>, the prototype object): truthy, and not strings.
\<close>

definition Object_prototype_keys :: "string list" where
  "Object_prototype_keys =
     [''constructor'', ''__defineGetter__'', ''__defineSetter__'', ''hasOwnProperty'',
      ''__lookupGetter__'', ''__lookupSetter__'', ''isPrototypeOf'', ''propertyIsEnumerable'',
      ''toString'', ''valueOf'', ''__proto__'', ''toLocaleString'']"

datatype slug_value =
    Slug string
  | Object_member string

definition alias_lookup :: "string \<Rightarrow> slug_value option" where
  "alias_lookup candidate =
     (case map_of COURSE_TO_BADGE_SLUG candidate of
        Some slug \<Rightarrow> Some (Slug slug)
      | None \<Rightarrow>
          if candidate \<in> set Object_prototype_keys then Some (Object_member candidate)
          else None)"

text \<open>JavaScript truthiness of a resolved value: only the empty string is falsy.\<close>

fun truthy_slug :: "slug_value \<Rightarrow> bool" where
  "truthy_slug (Slug s) = (s \<noteq> [])"
| "truthy_slug (Object_member k) = True"

text \<open>
  The text a resolved value takes where the source interpolates it or hands it to the query
  builder (\<^verbatim>\<open>`eq.${value}`\<close>).
\<close>

fun slug_text :: "slug_value \<Rightarrow> string" where
  "slug_text (Slug s) = s"
| "slug_text (Object_member k) =
     (if k = ''__proto__'' then ''[object Object]''
      else ''function '' @ (if k = ''constructor'' then ''Object'' else k)
             @ ''() { [native code] }'')"

text \<open>\<^verbatim>\<open>normalize\<close>: undefined for an undefined or empty value, else trimmed and lower-cased.\<close>

fun normalize :: "string option \<Rightarrow> string option" where
  "normalize None = None"
| "normalize (Some v) = (if v = [] then None else Some (toLowerCase (trim v)))"

record badge_params =
  param_badgeSlug :: "string option"
  param_courseId :: "string option"
  param_courseName :: "string option"

text \<open>\<^verbatim>\<open>.filter(Boolean)\<close> drops the undefined and the empty candidates.\<close>

definition candidates :: "badge_params \<Rightarrow> string list" where
  "candidates params =
     concat (map (\<lambda>c. case c of None \<Rightarrow> [] | Some s \<Rightarrow> if s = [] then [] else [s])
       [normalize (param_badgeSlug params),
        normalize (param_courseId params),
        normalize (param_courseName params)])"

text \<open>The loop over the candidates: the first truthy table entry is returned.\<close>

fun first_alias :: "string list \<Rightarrow> slug_value option" where
  "first_alias [] = None"
| "first_alias (candidate # rest) =
     (case alias_lookup candidate of
        Some v \<Rightarrow> if truthy_slug v then Some v else first_alias rest
      | None \<Rightarrow> first_alias rest)"

text \<open>
  \<^verbatim>\<open>resolveBadgeSlug\<close>; its declared result is \<^verbatim>\<open>string | undefined\<close>, with \<open>None\<close> for
  undefined.
\<close>

definition resolveBadgeSlug :: "badge_params \<Rightarrow> slug_value option" where
  "resolveBadgeSlug params =
     (case first_alias (candidates params) of
        Some v \<Rightarrow> Some v
      | None \<Rightarrow> Some (Slug DEFAULT_BADGE_SLUG))"

section \<open>Request payloads (course-completion.ts, lines 14-36 and 93-137)\<close>

text \<open>
  A parsed JSON body. Numbers are kept as integers: the handler never computes with one.
  An object is the list of its members in the order of the text; where a key is repeated,
  \<^verbatim>\<open>JSON.parse\<close> keeps the last member.
\<close>

datatype json =
    JNull
  | JBool bool
  | JNumber int
  | JString string
  | JArray "json list"
  | JObject "(string \<times> json) list"

definition member :: "(string \<times> json) list \<Rightarrow> string \<Rightarrow> json option" where
  "member kvs k = map_of (rev kvs) k"

text \<open>
  The zod combinators the two schemas use. A parse result is \<open>None\<close> when validation
  fails. \<open>z_string\<close> is \<^verbatim>\<open>z.string()\<close> on a required key, \<open>z_string_optional\<close> is
  \<^verbatim>\<open>z.string().optional()\<close> (an absent key parses to undefined, here \<open>Some None\<close>; null is
  rejected). The format check of \<^verbatim>\<open>.email()\<close> belongs to the zod library and is a parameter,
  \<open>is_email\<close>, of the schemas; \<open>z_email\<close> below is the check zod makes.
\<close>

definition z_string :: "(string \<times> json) list \<Rightarrow> string \<Rightarrow> string option" where
  "z_string kvs k = (case member kvs k of Some (JString s) \<Rightarrow> Some s | _ \<Rightarrow> None)"

definition z_string_optional :: "(string \<times> json) list \<Rightarrow> string \<Rightarrow> string option option" where
  "z_string_optional kvs k =
     (case member kvs k of
        None \<Rightarrow> Some None
      | Some (JString s) \<Rightarrow> Some (Some s)
      | Some _ \<Rightarrow> None)"

text \<open>
  \<^verbatim>\<open>.email()\<close> tests the whole string against zod's pattern for addresses: the string
  does not start with a dot and has no two dots in a row; the local part is letters,
  digits and \<^verbatim>\<open>_ ' + - .\<close> and ends in a letter, a digit or one of \<^verbatim>\<open>_ + -\<close>; after the
  \<^verbatim>\<open>@\<close> come one or more labels, each a letter or digit followed by letters, digits and
  hyphens and closed by a dot, and then two or more letters. \<open>split_str\<close> cuts a string at
  every occurrence of a separator, as \<^verbatim>\<open>split\<close> does.
\<close>

definition is_letter :: "char \<Rightarrow> bool" where
  "is_letter c \<longleftrightarrow> c \<in> set (upper_letters @ lower_letters)"

definition is_alphanumeric :: "char \<Rightarrow> bool" where
  "is_alphanumeric c \<longleftrightarrow> is_letter c \<or> c \<in> set ''0123456789''"

definition local_char :: "char \<Rightarrow> bool" where
  "local_char c \<longleftrightarrow>
     is_alphanumeric c \<or> c \<in> set [CHR ''_'', CHR 0x27, CHR ''+'', CHR ''-'', CHR ''.'']"

definition local_end :: "char \<Rightarrow> bool" where
  "local_end c \<longleftrightarrow> is_alphanumeric c \<or> c \<in> set [CHR ''_'', CHR ''+'', CHR ''-'']"

definition domain_label :: "string \<Rightarrow> bool" where
  "domain_label l \<longleftrightarrow>
     l \<noteq> [] \<and> is_alphanumeric (hd l)
     \<and> list_all (\<lambda>c. is_alphanumeric c \<or> c = CHR ''-'') (tl l)"

definition top_level :: "string \<Rightarrow> bool" where
  "top_level l \<longleftrightarrow> 2 \<le> length l \<and> list_all is_letter l"

fun split_str :: "char \<Rightarrow> string \<Rightarrow> string list" where
  "split_str sep [] = [[]]"
| "split_str sep (c # cs) =
     (if c = sep then [] # split_str sep cs
      else (case split_str sep cs of
              [] \<Rightarrow> [[c]]
            | part # parts \<Rightarrow> (c # part) # parts))"

definition z_email :: "string \<Rightarrow> bool" where
  "z_email s \<longleftrightarrow>
     (let local_part = takeWhile (\<lambda>c. c \<noteq> CHR ''@'') s;
          rest = dropWhile (\<lambda>c. c \<noteq> CHR ''@'') s;
          labels = split_str CHR ''.'' (tl rest)
      in \<not> prefix ''.'' s \<and> \<not> includes_str s ''..''
         \<and> local_part \<noteq> [] \<and> list_all local_char local_part \<and> local_end (last local_part)
         \<and> rest \<noteq> []
         \<and> 2 \<le> length labels \<and> list_all domain_label (butlast labels)
         \<and> top_level (last labels))"

text \<open>\<^verbatim>\<open>z.record(z.any()).optional()\<close>: absent, or an object (not null, not an array).\<close>

definition z_record_optional ::
  "(string \<times> json) list \<Rightarrow> string \<Rightarrow> (string \<times> json) list option option" where
  "z_record_optional kvs k =
     (case member kvs k of
        None \<Rightarrow> Some None
      | Some (JObject m) \<Rightarrow> Some (Some m)
      | Some _ \<Rightarrow> None)"

record direct_payload =
  direct_name :: string
  direct_email :: string
  direct_badgeSlug :: "string option"
  direct_courseId :: "string option"
  direct_courseName :: "string option"
  direct_personalizedDescription :: "string option"

definition directPayloadSchema :: "(string \<Rightarrow> bool) \<Rightarrow> json \<Rightarrow> direct_payload option" where
  "directPayloadSchema is_email j =
     (case j of
        JObject kvs \<Rightarrow>
          (case (z_string kvs ''name'', z_string kvs ''email'',
                 z_string_optional kvs ''badgeSlug'', z_string_optional kvs ''courseId'',
                 z_string_optional kvs ''courseName'',
                 z_string_optional kvs ''personalizedDescription'') of
             (Some name, Some email, Some badgeSlug, Some courseId, Some courseName,
              Some personalizedDescription) \<Rightarrow>
               if 1 \<le> length name \<and> is_email email then
                 Some \<lparr>direct_name = name, direct_email = email, direct_badgeSlug = badgeSlug,
                       direct_courseId = courseId, direct_courseName = courseName,
                       direct_personalizedDescription = personalizedDescription\<rparr>
               else None
           | _ \<Rightarrow> None)
      | _ \<Rightarrow> None)"

record webhook_record =
  record_course_id :: string
  record_course_name :: "string option"
  record_user_email :: string
  record_user_name :: string
  record_metadata :: "(string \<times> json) list option"

definition recordSchema :: "(string \<Rightarrow> bool) \<Rightarrow> json \<Rightarrow> webhook_record option" where
  "recordSchema is_email j =
     (case j of
        JObject kvs \<Rightarrow>
          (case (z_string kvs ''course_id'', z_string_optional kvs ''course_name'',
                 z_string kvs ''user_email'', z_string kvs ''user_name'',
                 z_record_optional kvs ''metadata'') of
             (Some course_id, Some course_name, Some user_email, Some user_name,
              Some metadata) \<Rightarrow>
               if is_email user_email then
                 Some \<lparr>record_course_id = course_id, record_course_name = course_name,
                       record_user_email = user_email, record_user_name = user_name,
                       record_metadata = metadata\<rparr>
               else None
           | _ \<Rightarrow> None)
      | _ \<Rightarrow> None)"

text \<open>
  \<^verbatim>\<open>supabaseWebhookSchema\<close>: \<^verbatim>\<open>type\<close>, \<^verbatim>\<open>table\<close> and \<^verbatim>\<open>schema\<close> must be strings,
  \<^verbatim>\<open>record\<close> must validate, and \<^verbatim>\<open>old_record\<close> (\<^verbatim>\<open>z.any().nullable()\<close>) accepts anything,
  an absent key included. The handler reads only \<^verbatim>\<open>data.record\<close>, which is what is returned.
\<close>

definition supabaseWebhookSchema :: "(string \<Rightarrow> bool) \<Rightarrow> json \<Rightarrow> webhook_record option" where
  "supabaseWebhookSchema is_email j =
     (case j of
        JObject kvs \<Rightarrow>
          (case (z_string kvs ''type'', z_string kvs ''table'', z_string kvs ''schema'',
                 member kvs ''record'') of
             (Some _, Some _, Some _, Some r) \<Rightarrow> recordSchema is_email r
           | _ \<Rightarrow> None)
      | _ \<Rightarrow> None)"

text \<open>
  The six variables that parsing binds (lines 102-107). \<^verbatim>\<open>personalizedDescription\<close> is
  declared a string, but on the webhook shape it is read from \<^verbatim>\<open>metadata\<close>, whose values
  are unconstrained, so it holds an arbitrary JSON value.
\<close>

record payload =
  name :: string
  email :: string
  badgeSlug :: "string option"
  courseId :: "string option"
  courseName :: "string option"
  personalizedDescription :: "json option"

text \<open>
  Lines 99-137: the webhook shape is tried first, then the direct shape; \<open>None\<close> is the
  400 response for a body that fits neither.
\<close>

definition parsePayload :: "(string \<Rightarrow> bool) \<Rightarrow> json \<Rightarrow> payload option" where
  "parsePayload is_email j =
     (case supabaseWebhookSchema is_email j of
        Some record \<Rightarrow>
          Some \<lparr>name = record_user_name record,
                email = record_user_email record,
                badgeSlug = None,
                courseId = Some (record_course_id record),
                courseName = record_course_name record,
                personalizedDescription =
                  (case record_metadata record of
                     None \<Rightarrow> None
                   | Some metadata \<Rightarrow> member metadata ''personalizedDescription'')\<rparr>
      | None \<Rightarrow>
          (case directPayloadSchema is_email j of
             None \<Rightarrow> None
           | Some data \<Rightarrow>
               Some \<lparr>name = direct_name data,
                     email = direct_email data,
                     badgeSlug = direct_badgeSlug data,
                     courseId = direct_courseId data,
                     courseName = direct_courseName data,
                     personalizedDescription =
                       map_option JString (direct_personalizedDescription data)\<rparr>))"

text \<open>
  Lines 139-143: a truthy (present and non-empty) course name replaces whatever description
  the payload carried.
\<close>

definition describe :: "payload \<Rightarrow> json option" where
  "describe p =
     (case courseName p of
        Some c \<Rightarrow>
          if c \<noteq> [] then
            Some (JString (''Recognized for successfully completing the '' @ c
                            @ '' certification program.''))
          else personalizedDescription p
      | None \<Rightarrow> personalizedDescription p)"

section \<open>The datastore, the object storage and the process state\<close>

text \<open>
  The three tables the handler touches, as row lists in insertion order. Identifiers are the
  datastore's UUIDs, held as text. \<open>award_issued_at\<close> is nullable, as the handler's
  \<^verbatim>\<open>awardRecord.issued_at ?? issuedAt\<close> allows, and a timestamp is kept as the text that was
  sent; the description column holds the JSON value it was sent.
\<close>

record badge_row =
  badge_id :: string
  badge_slug :: string
  badge_name :: string

record person_row =
  person_id :: string
  person_name :: string
  person_email :: string

record award_row =
  award_id :: string
  award_person_id :: string
  award_badge_id :: string
  award_issued_at :: "string option"
  award_personalized_description :: "json option"

record database =
  badges :: "badge_row list"
  people :: "person_row list"
  awards :: "award_row list"

text \<open>
  What a query resolves to: \<^verbatim>\<open>{data, error}\<close> with a row, with neither (no row matched a
  \<^verbatim>\<open>maybeSingle\<close>), or with an error and its message.
\<close>

datatype 'a query_result =
    Data 'a
  | No_data
  | Query_error string

definition row_count_message :: string where
  "row_count_message = ''JSON object requested, multiple (or no) rows returned''"

text \<open>
  \<^verbatim>\<open>.single()\<close> wants exactly one matching row; \<^verbatim>\<open>.maybeSingle()\<close> also accepts none.
  \<open>fault\<close> is a failure of the call itself (transport, permissions, constraint), when the
  environment injects one.
\<close>

definition single :: "string option \<Rightarrow> 'a list \<Rightarrow> 'a query_result" where
  "single fault rows =
     (case fault of
        Some message \<Rightarrow> Query_error message
      | None \<Rightarrow> (case rows of [r] \<Rightarrow> Data r | _ \<Rightarrow> Query_error row_count_message))"

definition maybeSingle :: "string option \<Rightarrow> 'a list \<Rightarrow> 'a query_result" where
  "maybeSingle fault rows =
     (case fault of
        Some message \<Rightarrow> Query_error message
      | None \<Rightarrow>
          (case rows of
             [] \<Rightarrow> No_data
           | [r] \<Rightarrow> Data r
           | _ \<Rightarrow> Query_error row_count_message))"

datatype db_call = Badge_lookup | Person_lookup | Person_insert | Award_lookup | Award_insert

text \<open>Object storage: the public flag of each bucket, and the objects by bucket and path.\<close>

record stored_object =
  object_body :: string
  object_contentType :: string
  object_cacheControl :: string

record storage_state =
  buckets :: "string \<rightharpoonup> bool"
  objects :: "string \<times> string \<rightharpoonup> stored_object"

datatype status_code = Num nat | Str string

record storage_error =
  error_status :: "status_code option"
  error_statusCode :: "status_code option"
  error_message :: string

datatype storage_call = Get_bucket | Create_bucket | Download | Upload

text \<open>How \<^verbatim>\<open>resend.emails.send\<close> ends.\<close>

datatype delivery =
    Delivered
  | Provider_error string
  | Threw_Error string
  | Threw_other

record message =
  message_from :: string
  message_to :: string
  message_subject :: string

text \<open>
  The state one request runs in and leaves behind: the datastore, the storage, the messages
  handed to the email provider, and the two lazily created module-level clients.
\<close>

record world =
  db :: database
  storage :: storage_state
  outbox :: "message list"
  supabaseAdminClient :: bool
  resendClient :: bool

text \<open>
  Everything one request takes from outside the repository: the zod email check, the
  process environment variables, the failures and generated values of the datastore, the
  clock, the locale formatting of dates, the file URL of the public directory, the bundled
  template file as \<^verbatim>\<open>readFile\<close> returns it (\<open>Inl\<close> when it throws), the failures of the
  storage service, asset inlining (file system and network) and rasterisation
  (headless browser), the storage client's public URL for a bucket and path, and the end of
  the email delivery.
\<close>

record env =
  is_email :: "string \<Rightarrow> bool"
  SUPABASE_SERVICE_ROLE_KEY :: "string option"
  RESEND_API_KEY :: "string option"
  RESEND_FROM_EMAIL :: "string option"
  db_fault :: "db_call \<Rightarrow> string option"
  new_person_id :: string
  new_award_id :: string
  now :: string
  toLocaleDateString :: "string \<Rightarrow> string"
  baseHref :: string
  read_template :: "string + string"
  storage_fault :: "storage_call \<Rightarrow> storage_error option"
  inline_assets :: "string \<Rightarrow> string + string"
  render_pdf :: "string \<Rightarrow> string + string"
  getPublicUrl :: "string \<Rightarrow> string \<Rightarrow> string"
  send_result :: delivery

text \<open>An environment variable counts when it is set and not empty.\<close>

definition truthy_var :: "string option \<Rightarrow> bool" where
  "truthy_var v = (case v of None \<Rightarrow> False | Some s \<Rightarrow> s \<noteq> [])"

text \<open>
  \<^verbatim>\<open>getSupabaseAdminClient\<close> (supabaseAdmin.ts, lines 6-25): the cached client, or a new one
  when the service role key is set; \<open>Inl\<close> is the thrown error's message.
\<close>

definition getSupabaseAdminClient :: "world \<Rightarrow> env \<Rightarrow> string + world" where
  "getSupabaseAdminClient w e =
     (if supabaseAdminClient w then Inr w
      else if \<not> truthy_var (SUPABASE_SERVICE_ROLE_KEY e) then
        Inl ''SUPABASE_SERVICE_ROLE_KEY is not set; required for server-side writes.''
      else Inr (w\<lparr>supabaseAdminClient := True\<rparr>))"

section \<open>Responses\<close>

datatype EmailSendStatus =
    Sent
  | Skipped string
  | Failed string

datatype details =
    Omitted
  | Validation_issues
  | Details "string option"

record award_view =
  view_id :: string
  view_verificationCode :: string
  view_issuedAt :: string
  view_personalizedDescription :: "json option"
  view_url :: string
  view_certificateUrl :: "string option"

record ok_body =
  ok_status :: string
  ok_badgeSlug :: string
  ok_recipientEmail :: string
  ok_recipientName :: string
  ok_award :: award_view
  ok_email :: EmailSendStatus

datatype body =
    Error_body string details
  | Ok_body ok_body

record response =
  response_body :: body
  response_status :: nat
  response_headers :: "(string \<times> string) list"

definition corsHeaders :: "(string \<times> string) list" where
  "corsHeaders =
     [(''Access-Control-Allow-Origin'', ''*''),
      (''Access-Control-Allow-Methods'', ''POST, OPTIONS''),
      (''Access-Control-Allow-Headers'', ''Content-Type, Authorization'')]"

definition jsonResponse :: "body \<Rightarrow> nat \<Rightarrow> response" where
  "jsonResponse b status =
     \<lparr>response_body = b, response_status = status,
      response_headers = (''Content-Type'', ''application/json'') # corsHeaders\<rparr>"

text \<open>A handler either returns a response or lets an exception escape.\<close>

datatype outcome =
    Returned response
  | Threw string

section \<open>Badge lookup, person upsert, award upsert (course-completion.ts, lines 151-242)\<close>

text \<open>
  Three consecutive blocks of \<^verbatim>\<open>POST\<close>, named after the comments that open them. Each
  answers with an error response (\<open>Inl\<close>) or hands its result to the next.
\<close>

definition lookupBadge :: "world \<Rightarrow> env \<Rightarrow> slug_value \<Rightarrow> response + badge_row" where
  "lookupBadge w e resolvedBadgeSlug =
     (case single (db_fault e Badge_lookup)
             (filter (\<lambda>b. badge_slug b = slug_text resolvedBadgeSlug) (badges (db w))) of
        Data badge \<Rightarrow> Inr badge
      | No_data \<Rightarrow>
          Inl (jsonResponse
                 (Error_body (''Badge '' @ [CHR 0x27] @ slug_text resolvedBadgeSlug
                                @ [CHR 0x27] @ '' not found'') (Details None)) 404)
      | Query_error message \<Rightarrow>
          Inl (jsonResponse
                 (Error_body (''Badge '' @ [CHR 0x27] @ slug_text resolvedBadgeSlug
                                @ [CHR 0x27] @ '' not found'') (Details (Some message))) 404))"

text \<open>\<^verbatim>\<open>normalize(email) || email.toLowerCase()\<close> (line 166).\<close>

definition normalizedEmail :: "string \<Rightarrow> string" where
  "normalizedEmail address =
     (case normalize (Some address) of
        Some n \<Rightarrow> if n \<noteq> [] then n else toLowerCase address
      | None \<Rightarrow> toLowerCase address)"

text \<open>
  Lines 165-198. The result is \<^verbatim>\<open>personId\<close>. An existing row is reused when its id is
  truthy; otherwise a row is inserted under the id the datastore generates.
\<close>

definition upsertPerson :: "world \<Rightarrow> env \<Rightarrow> payload \<Rightarrow> (response + string) \<times> world" where
  "upsertPerson w e p =
     (case maybeSingle (db_fault e Person_lookup)
             (filter (\<lambda>r. person_email r = normalizedEmail (email p)) (people (db w))) of
        Query_error message \<Rightarrow>
          (Inl (jsonResponse (Error_body ''Failed to lookup person'' (Details (Some message))) 500),
           w)
      | existingPerson \<Rightarrow>
          (let personId = (case existingPerson of Data r \<Rightarrow> Some (person_id r) | _ \<Rightarrow> None) in
           if personId \<noteq> None \<and> personId \<noteq> Some [] then (Inr (the personId), w)
           else
             (case db_fault e Person_insert of
                Some message \<Rightarrow>
                  (Inl (jsonResponse
                          (Error_body ''Failed to create person'' (Details (Some message))) 500),
                   w)
              | None \<Rightarrow>
                  (Inr (new_person_id e),
                   w\<lparr>db := (db w)\<lparr>people := people (db w) @
                        [\<lparr>person_id = new_person_id e, person_name = name p,
                          person_email = normalizedEmail (email p)\<rparr>]\<rparr>\<rparr>))))"

text \<open>
  Lines 200-242. The result is \<^verbatim>\<open>awardRecord\<close>: the existing award of this person and
  badge when there is one, else a row inserted with the current time and the description.
  A null description is stored as the column's null.
\<close>

definition upsertAward ::
  "world \<Rightarrow> env \<Rightarrow> string \<Rightarrow> badge_row \<Rightarrow> json option \<Rightarrow> (response + award_row) \<times> world" where
  "upsertAward w e personId badge description =
     (case maybeSingle (db_fault e Award_lookup)
             (filter (\<lambda>a. award_person_id a = personId \<and> award_badge_id a = badge_id badge)
                (awards (db w))) of
        Query_error message \<Rightarrow>
          (Inl (jsonResponse
                  (Error_body ''Failed to lookup existing award'' (Details (Some message))) 500),
           w)
      | Data existingAward \<Rightarrow> (Inr existingAward, w)
      | No_data \<Rightarrow>
          (case db_fault e Award_insert of
             Some message \<Rightarrow>
               (Inl (jsonResponse
                       (Error_body ''Failed to create award'' (Details (Some message))) 500),
                w)
           | None \<Rightarrow>
               (let createdAward =
                      \<lparr>award_id = new_award_id e, award_person_id = personId,
                       award_badge_id = badge_id badge, award_issued_at = Some (now e),
                       award_personalized_description =
                         (if description = Some JNull then None else description)\<rparr>
                in (Inr createdAward,
                    w\<lparr>db := (db w)\<lparr>awards := awards (db w) @ [createdAward]\<rparr>\<rparr>))))"

section \<open>String replacement\<close>

text \<open>
  \<open>GetSubstitution\<close> expands a replacement string as \<^verbatim>\<open>replace\<close> and \<^verbatim>\<open>replaceAll\<close> do when
  the pattern has no capture groups: \<^verbatim>\<open>$$\<close> is a dollar sign, \<^verbatim>\<open>$&\<close> the matched text,
  \<^verbatim>\<open>$`\<close> the text before the match, \<^verbatim>\<open>$'\<close> the text after it; any other character,
  a dollar sign before anything else included, stands for itself.
\<close>

fun GetSubstitution :: "string \<Rightarrow> string \<Rightarrow> string \<Rightarrow> string \<Rightarrow> string" where
  "GetSubstitution matched preceding following [] = []"
| "GetSubstitution matched preceding following [c] = [c]"
| "GetSubstitution matched preceding following (c # d # rest) =
     (if c = CHR ''$'' \<and> d = CHR ''$'' then
        CHR ''$'' # GetSubstitution matched preceding following rest
      else if c = CHR ''$'' \<and> d = CHR ''&'' then
        matched @ GetSubstitution matched preceding following rest
      else if c = CHR ''$'' \<and> d = CHR 0x60 then
        preceding @ GetSubstitution matched preceding following rest
      else if c = CHR ''$'' \<and> d = CHR 0x27 then
        following @ GetSubstitution matched preceding following rest
      else c # GetSubstitution matched preceding following (d # rest))"

text \<open>
  A matcher gives the length of the match that starts at the head of the text, if one does.
  \<open>replace_matches\<close> scans left to right, \<open>preceding\<close> being the text already passed; with
  \<open>global\<close> every match is replaced and the scan resumes behind it (one character further
  after an empty match), otherwise only the first.
\<close>

type_synonym matcher = "string \<Rightarrow> nat option"

fun replace_matches :: "bool \<Rightarrow> matcher \<Rightarrow> string \<Rightarrow> string \<Rightarrow> string \<Rightarrow> string" where
  "replace_matches global m replacement preceding [] =
     (case m [] of
        None \<Rightarrow> []
      | Some n \<Rightarrow> GetSubstitution [] preceding [] replacement)"
| "replace_matches global m replacement preceding (c # cs) =
     (case m (c # cs) of
        None \<Rightarrow> c # replace_matches global m replacement (preceding @ [c]) cs
      | Some n \<Rightarrow>
          if n = 0 then
            GetSubstitution [] preceding (c # cs) replacement @
              (if global then c # replace_matches global m replacement (preceding @ [c]) cs
               else c # cs)
          else
            GetSubstitution (c # take (n - 1) cs) preceding (drop (n - 1) cs) replacement @
              (if global then
                 replace_matches global m replacement (preceding @ c # take (n - 1) cs)
                   (drop (n - 1) cs)
               else drop (n - 1) cs))"

definition literal :: "string \<Rightarrow> matcher" where
  "literal pattern text = (if prefix pattern text then Some (length pattern) else None)"

text \<open>\<^verbatim>\<open>s.replace(pattern, replacement)\<close> and \<^verbatim>\<open>s.replaceAll(pattern, replacement)\<close> for a string
  pattern; a regular expression made of literal characters with the \<^verbatim>\<open>g\<close> flag behaves as
  \<open>replaceAll\<close>.\<close>

definition replace :: "string \<Rightarrow> string \<Rightarrow> string \<Rightarrow> string" where
  "replace s pattern replacement = replace_matches False (literal pattern) replacement [] s"

definition replaceAll :: "string \<Rightarrow> string \<Rightarrow> string \<Rightarrow> string" where
  "replaceAll s pattern replacement = replace_matches True (literal pattern) replacement [] s"

section \<open>Certificate generation (certificatePdf, the storage-template variant, unnamed/part_001)\<close>

definition CERT_BUCKET :: string where
  "CERT_BUCKET = ''certificates''"

definition TEMPLATE_STORAGE_PATH :: string where
  "TEMPLATE_STORAGE_PATH = ''templates/certificate-preview.html''"

definition NAME_PLACEHOLDER :: string where
  "NAME_PLACEHOLDER = ''${Name}''"

definition DATE_PLACEHOLDER :: string where
  "DATE_PLACEHOLDER = ''{Date}''"

definition COURSE_PLACEHOLDER :: string where
  "COURSE_PLACEHOLDER = ''${CourseName}''"

record GenerateOptions =
  recipientName :: string
  issuedAt :: string
  verificationCode :: string
  badgeTitle :: string

definition formatIssuedDate :: "env \<Rightarrow> string \<Rightarrow> string" where
  "formatIssuedDate e issued = toLocaleDateString e issued"

text \<open>
  The storage service at its interface. A call fails as the environment says; otherwise a
  missing bucket or object is reported as a 404 error, creating a bucket that exists is an
  error, and an upload replaces an existing object only with \<^verbatim>\<open>upsert\<close>.
\<close>

definition not_found :: "string \<Rightarrow> storage_error" where
  "not_found what =
     \<lparr>error_status = Some (Num 404), error_statusCode = Some (Str ''404''),
      error_message = what @ '' not found''\<rparr>"

definition getBucket :: "world \<Rightarrow> env \<Rightarrow> string \<Rightarrow> bool option \<times> storage_error option" where
  "getBucket w e bucket =
     (case storage_fault e Get_bucket of
        Some err \<Rightarrow> (None, Some err)
      | None \<Rightarrow>
          (case buckets (storage w) bucket of
             Some public \<Rightarrow> (Some public, None)
           | None \<Rightarrow> (None, Some (not_found ''Bucket''))))"

definition createBucket :: "world \<Rightarrow> env \<Rightarrow> string \<Rightarrow> bool \<Rightarrow> storage_error option \<times> world" where
  "createBucket w e bucket public =
     (case storage_fault e Create_bucket of
        Some err \<Rightarrow> (Some err, w)
      | None \<Rightarrow>
          if buckets (storage w) bucket \<noteq> None then
            (Some \<lparr>error_status = Some (Num 409), error_statusCode = Some (Str ''409''),
                   error_message = ''The resource already exists''\<rparr>, w)
          else
            (None, w\<lparr>storage := (storage w)\<lparr>buckets := (buckets (storage w))(bucket \<mapsto> public)\<rparr>\<rparr>))"

definition download :: "world \<Rightarrow> env \<Rightarrow> string \<Rightarrow> string \<Rightarrow> string option \<times> storage_error option" where
  "download w e bucket path =
     (case storage_fault e Download of
        Some err \<Rightarrow> (None, Some err)
      | None \<Rightarrow>
          (case objects (storage w) (bucket, path) of
             Some obj \<Rightarrow> (Some (object_body obj), None)
           | None \<Rightarrow> (None, Some (not_found ''Object''))))"

record upload_options =
  contentType :: string
  cacheControl :: string
  upsert :: bool

definition upload ::
  "world \<Rightarrow> env \<Rightarrow> string \<Rightarrow> string \<Rightarrow> string \<Rightarrow> upload_options \<Rightarrow> storage_error option \<times> world" where
  "upload w e bucket path content options =
     (case storage_fault e Upload of
        Some err \<Rightarrow> (Some err, w)
      | None \<Rightarrow>
          if buckets (storage w) bucket = None then (Some (not_found ''Bucket''), w)
          else if objects (storage w) (bucket, path) \<noteq> None \<and> \<not> upsert options then
            (Some \<lparr>error_status = Some (Num 409), error_statusCode = Some (Str ''409''),
                   error_message = ''The resource already exists''\<rparr>, w)
          else
            (None,
             w\<lparr>storage := (storage w)\<lparr>objects := (objects (storage w))((bucket, path) \<mapsto>
                  \<lparr>object_body = content, object_contentType = contentType options,
                   object_cacheControl = cacheControl options\<rparr>)\<rparr>\<rparr>))"

text \<open>\<^verbatim>\<open>error.status ?? error.statusCode\<close>, and the test that it is 404 or "404".\<close>

definition status_of :: "storage_error \<Rightarrow> status_code option" where
  "status_of err = (case error_status err of Some s \<Rightarrow> Some s | None \<Rightarrow> error_statusCode err)"

definition is_404 :: "status_code option \<Rightarrow> bool" where
  "is_404 status \<longleftrightarrow> status = Some (Num 404) \<or> status = Some (Str ''404'')"

text \<open>
  \<^verbatim>\<open>ensurePublicBucket\<close> (lines 37-59, the same text in both variants); \<open>Inl\<close> is the
  message of the error thrown. It asks for the client first.
\<close>

definition ensurePublicBucket :: "world \<Rightarrow> env \<Rightarrow> string + world" where
  "ensurePublicBucket w e =
     (case getSupabaseAdminClient w e of
        Inl thrown \<Rightarrow> Inl thrown
      | Inr w0 \<Rightarrow>
          (case getBucket w0 e CERT_BUCKET of
             (Some data, _) \<Rightarrow> Inr w0
           | (None, error) \<Rightarrow>
               (case (case error of
                        Some err \<Rightarrow>
                          if \<not> is_404 (status_of err)
                          then Some (''Failed to check bucket: '' @ error_message err) else None
                      | None \<Rightarrow> None) of
                  Some thrown \<Rightarrow> Inl thrown
                | None \<Rightarrow>
                    (case createBucket w0 e CERT_BUCKET True of
                       (Some createError, _) \<Rightarrow>
                         Inl (''Failed to create bucket '' @ [CHR 0x27] @ CERT_BUCKET
                                @ [CHR 0x27] @ '': '' @ error_message createError)
                     | (None, w') \<Rightarrow> Inr w'))))"

text \<open>
  \<^verbatim>\<open>downloadTemplateFromStorage\<close> (lines 61-85). The state is returned with the result: a
  client or a bucket created on the way stays created when a later step throws.
\<close>

definition downloadTemplateFromStorage :: "world \<Rightarrow> env \<Rightarrow> (string + string) \<times> world" where
  "downloadTemplateFromStorage w e =
     (case getSupabaseAdminClient w e of
        Inl thrown \<Rightarrow> (Inl thrown, w)
      | Inr w1 \<Rightarrow>
          (case ensurePublicBucket w1 e of
             Inl thrown \<Rightarrow> (Inl thrown, w1)
           | Inr w2 \<Rightarrow>
               (case download w2 e CERT_BUCKET TEMPLATE_STORAGE_PATH of
                  (_, Some err) \<Rightarrow>
                    if is_404 (status_of err) then
                      (Inl (''Certificate template not found in storage at '' @ [CHR 0x27]
                              @ TEMPLATE_STORAGE_PATH @ [CHR 0x27] @ ''. ''
                              @ ''Upload the latest template before generating certificates.''),
                       w2)
                    else
                      (Inl (''Failed to download certificate template: '' @ error_message err),
                       w2)
                | (None, None) \<Rightarrow>
                    (Inl ''Certificate template download returned empty response'', w2)
                | (Some data, None) \<Rightarrow> (Inr data, w2))))"

text \<open>
  \<^verbatim>\<open>replacePlaceholders\<close> (lines 87-111): the loop over the three replacements. Each test
  and each replacement is made on \<open>result\<close>, the text as the earlier replacements left it.
\<close>

fun replace_each :: "string \<Rightarrow> (string \<times> string) list \<Rightarrow> string + string" where
  "replace_each result [] = Inr result"
| "replace_each result ((placeholder, v) # replacements) =
     (if \<not> includes_str result placeholder then
        Inl (''Certificate template missing placeholder '' @ placeholder)
      else replace_each (replaceAll result placeholder v) replacements)"

definition replacePlaceholders :: "string \<Rightarrow> string \<Rightarrow> string \<Rightarrow> string \<Rightarrow> string + string" where
  "replacePlaceholders template recipient issuedDateLabel title =
     (let badgeTitleUpper = toUpperCase title in
      replace_each template
        [(NAME_PLACEHOLDER, recipient),
         (DATE_PLACEHOLDER, issuedDateLabel),
         (COURSE_PLACEHOLDER, badgeTitleUpper)])"

text \<open>\<^verbatim>\<open>injectBaseHref\<close> (lines 113-119).\<close>

definition injectBaseHref :: "env \<Rightarrow> string \<Rightarrow> string" where
  "injectBaseHref e template =
     (let baseTag = ''<base href=\"'' @ baseHref e @ ''\">'' in
      if includes_str template baseTag then template
      else if includes_str template ''<base'' then template
      else replace template ''<head>'' (''<head>'' @ baseTag))"

text \<open>
  \<^verbatim>\<open>buildCertificateHtml\<close> (lines 173-183). Inlining the assets reads files and the network:
  its result on the assembled text comes from the environment.
\<close>

definition buildCertificateHtml ::
  "world \<Rightarrow> env \<Rightarrow> string \<Rightarrow> string \<Rightarrow> string \<Rightarrow> (string + string) \<times> world" where
  "buildCertificateHtml w e recipient issuedDateLabel title =
     (case downloadTemplateFromStorage w e of
        (Inl thrown, w') \<Rightarrow> (Inl thrown, w')
      | (Inr template, w') \<Rightarrow>
          (let withBase = injectBaseHref e template in
           case replacePlaceholders withBase recipient issuedDateLabel title of
             Inl thrown \<Rightarrow> (Inl thrown, w')
           | Inr withValues \<Rightarrow> (inline_assets e withValues, w')))"

text \<open>\<^verbatim>\<open>generateCertificatePdf\<close> (lines 243-254); \<^verbatim>\<open>htmlToPdf\<close> is the environment's renderer.\<close>

definition generateCertificatePdf ::
  "world \<Rightarrow> env \<Rightarrow> GenerateOptions \<Rightarrow> (string + string) \<times> world" where
  "generateCertificatePdf w e options =
     (let issuedDateLabel = formatIssuedDate e (issuedAt options) in
      case buildCertificateHtml w e (recipientName options) issuedDateLabel
             (badgeTitle options) of
        (Inl thrown, w') \<Rightarrow> (Inl thrown, w')
      | (Inr html, w') \<Rightarrow> (render_pdf e html, w'))"

record certificate =
  publicUrl :: string
  storagePath :: string
  issuedDateLabel :: string

text \<open>\<^verbatim>\<open>generateCertificateAndUpload\<close> (lines 256-287).\<close>

definition generateCertificateAndUpload ::
  "world \<Rightarrow> env \<Rightarrow> GenerateOptions \<Rightarrow> (string + certificate) \<times> world" where
  "generateCertificateAndUpload w e options =
     (let label = formatIssuedDate e (issuedAt options) in
      case generateCertificatePdf w e options of
        (Inl thrown, w1) \<Rightarrow> (Inl thrown, w1)
      | (Inr pdfBytes, w1) \<Rightarrow>
          (case ensurePublicBucket w1 e of
             Inl thrown \<Rightarrow> (Inl thrown, w1)
           | Inr w2 \<Rightarrow>
               (case getSupabaseAdminClient w2 e of
                  Inl thrown \<Rightarrow> (Inl thrown, w2)
                | Inr w3 \<Rightarrow>
                    (let path = ''awards/'' @ verificationCode options @ ''.pdf'' in
                     case upload w3 e CERT_BUCKET path pdfBytes
                            \<lparr>contentType = ''application/pdf'', cacheControl = ''0'',
                             upsert = True\<rparr> of
                       (Some uploadError, w4) \<Rightarrow>
                         (Inl (''Failed to upload certificate: '' @ error_message uploadError),
                          w4)
                     | (None, w4) \<Rightarrow>
                         (Inr \<lparr>publicUrl = getPublicUrl e CERT_BUCKET path,
                               storagePath = path, issuedDateLabel = label\<rparr>, w4)))))"

section \<open>Certificate generation (certificatePdf, the bundled-template variant, unnamed/part_000)\<close>

text \<open>
  This variant reads the template from the public directory and finds the places to fill by
  their sample text. \<open>awarded_to\<close> is the regular expression \<^verbatim>\<open>/Awarded to[^<]+/\<close>:
  the words, then the longest non-empty run of characters other than \<^verbatim>\<open><\<close>.
\<close>

definition awarded_to :: matcher where
  "awarded_to text =
     (if prefix ''Awarded to'' text then
        (let run = takeWhile (\<lambda>c. c \<noteq> CHR ''<'') (drop 10 text) in
         if run = [] then None else Some (10 + length run))
      else None)"

text \<open>\<^verbatim>\<open>injectAwardLine\<close> (lines 55-62).\<close>

definition injectAwardLine :: "string \<Rightarrow> string \<Rightarrow> string \<Rightarrow> string + string" where
  "injectAwardLine template recipient label =
     (let line = ''Awarded to '' @ recipient @ '' on '' @ label;
          replaced = replace_matches True awarded_to line [] template in
      if \<not> includes_str replaced line then
        Inl ''Failed to inject name/date into certificate template''
      else Inr replaced)"

text \<open>\<^verbatim>\<open>injectBadgeTitle\<close> (lines 64-71).\<close>

definition injectBadgeTitle :: "string \<Rightarrow> string \<Rightarrow> string + string" where
  "injectBadgeTitle template title =
     (let badgeTitleUpper = toUpperCase title;
          replaced = replaceAll template ''GREEN SOFTWARE PRACTITIONER'' badgeTitleUpper in
      if \<not> includes_str replaced badgeTitleUpper then
        Inl ''Failed to inject badge title into certificate template''
      else Inr replaced)"

text \<open>\<^verbatim>\<open>buildCertificateHtml\<close> of this variant (lines 104-114).\<close>

definition buildCertificateHtml_bundled ::
  "env \<Rightarrow> string \<Rightarrow> string \<Rightarrow> string \<Rightarrow> string + string" where
  "buildCertificateHtml_bundled e recipient label title =
     (case read_template e of
        Inl thrown \<Rightarrow> Inl thrown
      | Inr template \<Rightarrow>
          (let withBase = injectBaseHref e template in
           case injectAwardLine withBase recipient label of
             Inl thrown \<Rightarrow> Inl thrown
           | Inr withAwardLine \<Rightarrow>
               (case injectBadgeTitle withAwardLine title of
                  Inl thrown \<Rightarrow> Inl thrown
                | Inr withBadge \<Rightarrow> inline_assets e withBadge)))"

text \<open>\<^verbatim>\<open>generateCertificatePdf\<close> of this variant (lines 167-175).\<close>

definition generateCertificatePdf_bundled :: "env \<Rightarrow> GenerateOptions \<Rightarrow> string + string" where
  "generateCertificatePdf_bundled e options =
     (let label = formatIssuedDate e (issuedAt options) in
      case buildCertificateHtml_bundled e (recipientName options) label (badgeTitle options) of
        Inl thrown \<Rightarrow> Inl thrown
      | Inr html \<Rightarrow> render_pdf e html)"

text \<open>\<^verbatim>\<open>generateCertificateAndUpload\<close> of this variant (lines 177-206).\<close>

definition generateCertificateAndUpload_bundled ::
  "world \<Rightarrow> env \<Rightarrow> GenerateOptions \<Rightarrow> (string + certificate) \<times> world" where
  "generateCertificateAndUpload_bundled w e options =
     (let label = formatIssuedDate e (issuedAt options) in
      case generateCertificatePdf_bundled e options of
        Inl thrown \<Rightarrow> (Inl thrown, w)
      | Inr pdfBytes \<Rightarrow>
          (case ensurePublicBucket w e of
             Inl thrown \<Rightarrow> (Inl thrown, w)
           | Inr w2 \<Rightarrow>
               (case getSupabaseAdminClient w2 e of
                  Inl thrown \<Rightarrow> (Inl thrown, w2)
                | Inr w3 \<Rightarrow>
                    (let path = ''awards/'' @ verificationCode options @ ''.pdf'' in
                     case upload w3 e CERT_BUCKET path pdfBytes
                            \<lparr>contentType = ''application/pdf'', cacheControl = ''0'',
                             upsert = True\<rparr> of
                       (Some uploadError, w4) \<Rightarrow>
                         (Inl (''Failed to upload certificate: '' @ error_message uploadError),
                          w4)
                     | (None, w4) \<Rightarrow>
                         (Inr \<lparr>publicUrl = getPublicUrl e CERT_BUCKET path,
                               storagePath = path, issuedDateLabel = label\<rparr>, w4)))))"

section \<open>Notification (resend, supabaseAdmin.ts lines 26-224)\<close>

text \<open>JavaScript truthiness of a JSON value.\<close>

fun truthy :: "json \<Rightarrow> bool" where
  "truthy JNull = False"
| "truthy (JBool b) = b"
| "truthy (JNumber n) = (n \<noteq> 0)"
| "truthy (JString s) = (s \<noteq> [])"
| "truthy (JArray xs) = True"
| "truthy (JObject kvs) = True"

text \<open>
  Whether a JSON value can be interpolated into a template literal. Conversion to a string
  throws a TypeError on an object whose own \<^verbatim>\<open>toString\<close> member hides the inherited
  method (a JSON value is never callable, and the inherited \<^verbatim>\<open>valueOf\<close> returns the
  object), and on an array that holds such an object; a null array element is skipped.
\<close>

fun interpolates :: "json \<Rightarrow> bool" where
  "interpolates (JArray xs) = list_all interpolates xs"
| "interpolates (JObject kvs) = (member kvs ''toString'' = None)"
| "interpolates j = True"

record notification =
  to :: string
  notify_recipientName :: string
  credentialName :: string
  notify_verificationCode :: string
  badgeUrl :: string
  notify_personalizedDescription :: "json option"
  certificateUrl :: "string option"

text \<open>
  \<^verbatim>\<open>getResendClient\<close> (lines 43-51): whether a client is at hand, and the state with the
  client it may have just created.
\<close>

definition getResendClient :: "world \<Rightarrow> env \<Rightarrow> bool \<times> world" where
  "getResendClient w e =
     (if resendClient w then (True, w)
      else if \<not> truthy_var (RESEND_API_KEY e) then (False, w)
      else (True, w\<lparr>resendClient := True\<rparr>))"

text \<open>
  \<^verbatim>\<open>sendAwardNotification\<close> (lines 53-222). The subject and both bodies are built before the
  \<^verbatim>\<open>try\<close>; the bodies interpolate the description, which is where the function can throw.
  Of the message only sender, recipient and subject are kept. Every message handed to
  \<^verbatim>\<open>resend.emails.send\<close> is appended to the outbox, however the delivery ends.
\<close>

definition sendAwardNotification ::
  "world \<Rightarrow> env \<Rightarrow> notification \<Rightarrow> (string + EmailSendStatus) \<times> world" where
  "sendAwardNotification w e n =
     (case getResendClient w e of
        (resend, w1) \<Rightarrow>
          if \<not> resend \<or> \<not> truthy_var (RESEND_FROM_EMAIL e) then
            (Inr (Skipped ''Resend not configured (missing API key or from address)''), w1)
          else
            (let subject = ''Your '' @ credentialName n
                             @ '' badge from Green Software Foundation'';
                 description =
                   (case notify_personalizedDescription n of
                      Some d \<Rightarrow>
                        if truthy d then d
                        else JString (''Recognized for successfully completing the ''
                                        @ credentialName n @ '' certification program.'')
                    | None \<Rightarrow>
                        JString (''Recognized for successfully completing the ''
                                   @ credentialName n @ '' certification program.''))
             in
             if \<not> interpolates description then
               (Inl ''TypeError: Cannot convert object to primitive value'', w1)
             else
               (let w2 = w1\<lparr>outbox := outbox w1 @
                           [\<lparr>message_from = the (RESEND_FROM_EMAIL e), message_to = to n,
                             message_subject = subject\<rparr>]\<rparr>
                in case send_result e of
                     Delivered \<Rightarrow> (Inr Sent, w2)
                   | Provider_error reason \<Rightarrow>
                       (Inr (Failed (if reason \<noteq> [] then reason
                                     else ''Domain not verified or other Resend error'')), w2)
                   | Threw_Error reason \<Rightarrow> (Inr (Failed reason), w2)
                   | Threw_other \<Rightarrow> (Inr (Failed ''Unknown error sending email''), w2))))"

section \<open>The ingestion endpoint (course-completion.ts, lines 87-288)\<close>

record request =
  request_json :: "json option"
  request_origin :: string

text \<open>
  Lines 139-288 of \<^verbatim>\<open>POST\<close>, on the variables that parsing bound. The certificate step is
  wrapped in \<^verbatim>\<open>try/catch\<close>: whatever it throws only leaves \<^verbatim>\<open>certificateUrl\<close> undefined.
  The notification is awaited outside any \<^verbatim>\<open>try\<close>. The module imported as
  \<^verbatim>\<open>@/lib/certificatePdf\<close> is taken to be the storage-template variant.
\<close>

definition issueAward :: "world \<Rightarrow> env \<Rightarrow> string \<Rightarrow> payload \<Rightarrow> outcome \<times> world" where
  "issueAward w e origin p =
     (let description = describe p in
      case getSupabaseAdminClient w e of
        Inl thrown \<Rightarrow> (Threw thrown, w)
      | Inr w0 \<Rightarrow>
          (case resolveBadgeSlug \<lparr>param_badgeSlug = badgeSlug p, param_courseId = courseId p,
                                  param_courseName = courseName p\<rparr> of
             None \<Rightarrow>
               (Returned (jsonResponse
                  (Error_body ''Badge could not be resolved from payload'' Omitted) 400), w0)
           | Some resolvedBadgeSlug \<Rightarrow>
               if \<not> truthy_slug resolvedBadgeSlug then
                 (Returned (jsonResponse
                    (Error_body ''Badge could not be resolved from payload'' Omitted) 400), w0)
               else
                 (case lookupBadge w0 e resolvedBadgeSlug of
                    Inl failure \<Rightarrow> (Returned failure, w0)
                  | Inr badge \<Rightarrow>
                      (case upsertPerson w0 e p of
                         (Inl failure, w1) \<Rightarrow> (Returned failure, w1)
                       | (Inr personId, w1) \<Rightarrow>
                           (case upsertAward w1 e personId badge description of
                              (Inl failure, w2) \<Rightarrow> (Returned failure, w2)
                            | (Inr awardRecord, w2) \<Rightarrow>
                                (let url = origin @ ''/awards/'' @ award_id awardRecord;
                                     issued =
                                       (case award_issued_at awardRecord of
                                          Some t \<Rightarrow> t
                                        | None \<Rightarrow> now e);
                                     generated =
                                       generateCertificateAndUpload w2 e
                                         \<lparr>recipientName = name p, issuedAt = issued,
                                          verificationCode = award_id awardRecord,
                                          badgeTitle = badge_name badge\<rparr>;
                                     certificate_url =
                                       (case fst generated of
                                          Inl thrown \<Rightarrow> None
                                        | Inr certificate \<Rightarrow> Some (publicUrl certificate));
                                     w3 = snd generated
                                 in
                                 case sendAwardNotification w3 e
                                        \<lparr>to = normalizedEmail (email p),
                                         notify_recipientName = name p,
                                         credentialName = badge_name badge,
                                         notify_verificationCode = award_id awardRecord,
                                         badgeUrl = url,
                                         notify_personalizedDescription = description,
                                         certificateUrl = certificate_url\<rparr> of
                                   (Inl thrown, w4) \<Rightarrow> (Threw thrown, w4)
                                 | (Inr emailResult, w4) \<Rightarrow>
                                     (Returned (jsonResponse
                                        (Ok_body
                                           \<lparr>ok_status = ''ok'',
                                            ok_badgeSlug = badge_slug badge,
                                            ok_recipientEmail = normalizedEmail (email p),
                                            ok_recipientName = name p,
                                            ok_award =
                                              \<lparr>view_id = award_id awardRecord,
                                               view_verificationCode = award_id awardRecord,
                                               view_issuedAt = issued,
                                               view_personalizedDescription = description,
                                               view_url = url,
                                               view_certificateUrl = certificate_url\<rparr>,
                                            ok_email = emailResult\<rparr>) 200), w4)))))))"

text \<open>
  \<^verbatim>\<open>POST\<close>: a body that is not JSON and a body that fits neither schema are answered with
  400 before anything else happens.
\<close>

definition POST :: "world \<Rightarrow> env \<Rightarrow> request \<Rightarrow> outcome \<times> world" where
  "POST w e req =
     (case request_json req of
        None \<Rightarrow> (Returned (jsonResponse (Error_body ''Invalid JSON payload'' Omitted) 400), w)
      | Some j \<Rightarrow>
          (case parsePayload (is_email e) j of
             None \<Rightarrow>
               (Returned (jsonResponse
                  (Error_body
                     ''Invalid payload - must be either Supabase webhook or direct API format''
                     Validation_issues) 400), w)
           | Some p \<Rightarrow> issueAward w e (request_origin req) p))"

text \<open>\<^verbatim>\<open>OPTIONS\<close>: no content, with the CORS headers.\<close>

definition OPTIONS :: "nat \<times> (string \<times> string) list" where
  "OPTIONS = (204, corsHeaders)"

section \<open>Notions used in the statements\<close>

text \<open>The body of a 200 response, when the outcome is one.\<close>

definition ok_of :: "outcome \<Rightarrow> ok_body option" where
  "ok_of out =
     (case out of
        Returned r \<Rightarrow>
          (case response_body r of
             Ok_body b \<Rightarrow> if response_status r = 200 then Some b else None
           | Error_body m d \<Rightarrow> None)
      | Threw thrown \<Rightarrow> None)"

definition is_error :: "response \<Rightarrow> bool" where
  "is_error r \<longleftrightarrow> (\<exists>m d. response_body r = Error_body m d)"

text \<open>The rows the two idempotency lookups select.\<close>

definition matching_people :: "world \<Rightarrow> payload \<Rightarrow> person_row list" where
  "matching_people w p =
     filter (\<lambda>r. person_email r = normalizedEmail (email p)) (people (db w))"

definition matching_awards :: "world \<Rightarrow> string \<Rightarrow> badge_row \<Rightarrow> award_row list" where
  "matching_awards w pid b =
     filter (\<lambda>a. award_person_id a = pid \<and> award_badge_id a = badge_id b) (awards (db w))"

text \<open>
  What a successful certificate upload leaves: the path and the public URL are those of the
  verification code, the object at that path is the rendered document with content type
  PDF and cache control 0, whatever was stored there before, and no other object changed.
\<close>

definition stored_under_code :: "world \<Rightarrow> env \<Rightarrow> string \<Rightarrow> certificate \<Rightarrow> world \<Rightarrow> bool" where
  "stored_under_code w e code c w' \<longleftrightarrow>
     storagePath c = ''awards/'' @ code @ ''.pdf''
     \<and> publicUrl c = getPublicUrl e ''certificates'' (''awards/'' @ code @ ''.pdf'')
     \<and> (\<exists>html pdf. render_pdf e html = Inr pdf
           \<and> objects (storage w') (''certificates'', ''awards/'' @ code @ ''.pdf'')
               = Some \<lparr>object_body = pdf, object_contentType = ''application/pdf'',
                       object_cacheControl = ''0''\<rparr>)
     \<and> (\<forall>k. k \<noteq> (''certificates'', ''awards/'' @ code @ ''.pdf'')
           \<longrightarrow> objects (storage w') k = objects (storage w) k)"

section \<open>A sample deployment\<close>

text \<open>
  Two badges, no people and no awards yet; the certificate bucket with a template; every
  service configured and working. The email check is zod's.
\<close>

definition example_world :: world where
  "example_world =
     \<lparr>db = \<lparr>badges = [\<lparr>badge_id = ''b-gsp'', badge_slug = ''green-software-practitioner'',
                        badge_name = ''Green Software Practitioner''\<rparr>,
                      \<lparr>badge_id = ''b-scs'', badge_slug = ''sustainable-cloud-specialist'',
                        badge_name = ''Sustainable Cloud Specialist''\<rparr>],
            people = [], awards = []\<rparr>,
      storage =
        \<lparr>buckets = [''certificates'' \<mapsto> True],
         objects = [(''certificates'', ''templates/certificate-preview.html'') \<mapsto>
           \<lparr>object_body =
              ''<html><head></head><h1>${CourseName}</h1><p>${Name}, {Date}</p></html>'',
            object_contentType = ''text/html'', object_cacheControl = ''0''\<rparr>]\<rparr>,
      outbox = [], supabaseAdminClient = False, resendClient = False\<rparr>"

definition example_env :: env where
  "example_env =
     \<lparr>is_email = z_email,
      SUPABASE_SERVICE_ROLE_KEY = Some ''service-role-key'',
      RESEND_API_KEY = Some ''re_key'',
      RESEND_FROM_EMAIL = Some ''badges@gsf.example'',
      db_fault = (\<lambda>call. None),
      new_person_id = ''person-1'',
      new_award_id = ''award-1'',
      now = ''2025-03-01T10:00:00.000Z'',
      toLocaleDateString = (\<lambda>issued. ''March 1, 2025''),
      baseHref = ''file:///app/public/'',
      read_template =
        Inr (''<html><head></head><h1>GREEN SOFTWARE PRACTITIONER</h1>''
             @ ''<p>Awarded to Sample Name on January 1, 2025</p></html>''),
      storage_fault = (\<lambda>call. None),
      inline_assets = Inr,
      render_pdf = (\<lambda>html. Inr (''%PDF-1.7 '' @ html)),
      getPublicUrl =
        (\<lambda>bucket path. ''https://db.example/storage/v1/object/public/'' @ bucket @ ''/'' @ path),
      send_result = Delivered\<rparr>"

text \<open>The same deployment one day later, for a second request.\<close>

definition example_env_later :: env where
  "example_env_later =
     example_env\<lparr>new_person_id := ''person-2'', new_award_id := ''award-2'',
                 now := ''2025-03-02T09:30:00.000Z'',
                 toLocaleDateString := (\<lambda>issued. ''March 2, 2025'')\<rparr>"

definition example_request :: request where
  "example_request =
     \<lparr>request_json = Some (JObject [(''name'', JString ''Jane Doe''),
                                     (''email'', JString ''jane@x.com''),
                                     (''courseId'', JString ''gsp'')]),
      request_origin = ''https://badges.example''\<rparr>"

text \<open>The deployment after Jane Doe has been registered, and a request that spells her
  name and her address differently.\<close>

definition example_world_registered :: world where
  "example_world_registered =
     example_world\<lparr>db := (db example_world)\<lparr>people :=
       [\<lparr>person_id = ''person-0'', person_name = ''Jane Doe'',
         person_email = ''jane@x.com''\<rparr>]\<rparr>\<rparr>"

definition example_request_respelled :: request where
  "example_request_respelled =
     \<lparr>request_json = Some (JObject [(''name'', JString ''J. Doe-Smith''),
                                     (''email'', JString ''JANE@X.com''),
                                     (''courseId'', JString ''gsp'')]),
      request_origin = ''https://badges.example''\<rparr>"

text \<open>A direct payload with an explicit slug and a description of its own, with or without
  a course name.\<close>

definition example_request_described :: "string option \<Rightarrow> request" where
  "example_request_described course =
     \<lparr>request_json = Some (JObject
        ([(''name'', JString ''Jane Doe''), (''email'', JString ''jane@x.com''),
          (''badgeSlug'', JString ''gsp'')]
         @ (case course of None \<Rightarrow> [] | Some c \<Rightarrow> [(''courseName'', JString c)])
         @ [(''personalizedDescription'', JString ''Top of the 2025 cohort.'')])),
      request_origin = ''https://badges.example''\<rparr>"

text \<open>A certificate request for the sample deployment.\<close>

definition example_options :: GenerateOptions where
  "example_options =
     \<lparr>recipientName = ''Jane Doe'', issuedAt = ''2025-03-01T10:00:00.000Z'',
      verificationCode = ''award-1'', badgeTitle = ''Green Software Practitioner''\<rparr>"

text \<open>The deployment after Jane Doe has been awarded the practitioner badge.\<close>

definition example_world_awarded :: world where
  "example_world_awarded =
     example_world_registered\<lparr>db := (db example_world_registered)\<lparr>awards :=
       [\<lparr>award_id = ''award-0'', award_person_id = ''person-0'', award_badge_id = ''b-gsp'',
         award_issued_at = Some ''2025-01-15T08:00:00.000Z'',
         award_personalized_description = None\<rparr>]\<rparr>\<rparr>"

text \<open>
  A database webhook for Jane Doe's completion, without a course name, whose metadata
  carries an object as the description.
\<close>

definition example_request_webhook :: request where
  "example_request_webhook =
     \<lparr>request_json = Some (JObject
        [(''type'', JString ''INSERT''), (''table'', JString ''course_completions''),
         (''schema'', JString ''public''),
         (''record'', JObject
            [(''course_id'', JString ''gsp''), (''user_email'', JString ''jane@x.com''),
             (''user_name'', JString ''Jane Doe''),
             (''metadata'', JObject
                [(''personalizedDescription'', JObject [(''toString'', JNull)])])]),
         (''old_record'', JNull)]),
      request_origin = ''https://badges.example''\<rparr>"

text \<open>A template that has lost its date placeholder, the deployment with that template in
  storage, and a bundled template that has lost its title.\<close>

definition template_without_date :: string where
  "template_without_date = ''<html><head></head><h1>${CourseName}</h1><p>${Name}</p></html>''"

definition example_world_without_date :: world where
  "example_world_without_date =
     example_world\<lparr>storage := (storage example_world)\<lparr>objects :=
       [(''certificates'', ''templates/certificate-preview.html'') \<mapsto>
          \<lparr>object_body = template_without_date, object_contentType = ''text/html'',
           object_cacheControl = ''0''\<rparr>]\<rparr>\<rparr>"

definition template_without_title :: string where
  "template_without_title =
     ''<html><head></head><p>Awarded to Sample Name on January 1, 2025</p></html>''"

section \<open>Properties of badge resolution\<close>



lemma alias_lookup_None_iff:
  "alias_lookup c = None \<longleftrightarrow>
     c \<notin> fst ` set COURSE_TO_BADGE_SLUG \<and> c \<notin> set Object_prototype_keys"
proof -
  have "map_of COURSE_TO_BADGE_SLUG c = None \<longleftrightarrow> c \<notin> fst ` set COURSE_TO_BADGE_SLUG"
    by (rule map_of_eq_None_iff)
  then show ?thesis
    by (cases "map_of COURSE_TO_BADGE_SLUG c") (auto simp: alias_lookup_def)
qed

lemma first_alias_None:
  "\<forall>c\<in>set cs. alias_lookup c = None \<Longrightarrow> first_alias cs = None"
  by (induction cs) auto

text \<open>
  C3, as the spec states it, has resolution fail exactly when the payload supplies no
  candidate. On the payload with no explicit slug, no course id and no course name the
  candidate list is empty and \<open>resolveBadgeSlug\<close> still returns the default slug, as the
  comment at its last line says; a direct payload of a name and an address alone is
  answered with the 200 response for the default badge.
\<close>

theorem resolveBadgeSlug_empty_payload_counterexample:
  "candidates \<lparr>param_badgeSlug = None, param_courseId = None, param_courseName = None\<rparr> = []
   \<and> resolveBadgeSlug \<lparr>param_badgeSlug = None, param_courseId = None, param_courseName = None\<rparr>
       = Some (Slug ''green-software-practitioner'')
   \<and> resolveBadgeSlug \<lparr>param_badgeSlug = None, param_courseId = None, param_courseName = None\<rparr>
       \<noteq> None
   \<and> map_option ok_badgeSlug
        (ok_of (fst (POST example_world example_env
           \<lparr>request_json = Some (JObject [(''name'', JString ''Jane Doe''),
                                           (''email'', JString ''jane@x.com'')]),
            request_origin = ''https://badges.example''\<rparr>)))
       = Some ''green-software-practitioner''"
  by code_simp

text \<open>
  C3 (amended): badge slug resolution never returns a resolution failure, whatever the
  payload supplies; and whenever no candidate of the payload is recognised (none is a key of
  the alias table or the name of a member that the table object inherits), which includes
  the payload with no candidate at all, the result is the configured default slug.
\<close>

theorem resolveBadgeSlug_never_fails_default:
  "resolveBadgeSlug params \<noteq> None \<and>
   ((\<forall>c\<in>set (candidates params).
        c \<notin> fst ` set COURSE_TO_BADGE_SLUG \<and> c \<notin> set Object_prototype_keys)
     \<longrightarrow> resolveBadgeSlug params = Some (Slug DEFAULT_BADGE_SLUG))"
  by (auto simp: resolveBadgeSlug_def first_alias_None alias_lookup_None_iff
           split: option.splits)

theorem resolveBadgeSlug_never_fails_default_witness:
  "candidates \<lparr>param_badgeSlug = None, param_courseId = Some '' Rust 101 '',
                param_courseName = Some ''Intro to Rust''\<rparr> = [''rust 101'', ''intro to rust'']
   \<and> resolveBadgeSlug \<lparr>param_badgeSlug = None, param_courseId = Some '' Rust 101 '',
                param_courseName = Some ''Intro to Rust''\<rparr> = Some (Slug DEFAULT_BADGE_SLUG)"
proof -
  let ?p = "\<lparr>param_badgeSlug = None, param_courseId = Some '' Rust 101 '',
             param_courseName = Some ''Intro to Rust''\<rparr>"
  have c: "candidates ?p = [''rust 101'', ''intro to rust'']"
    by (simp add: candidates_def trim_def toLowerCase_def is_white_space_def
                  upper_letters_def lower_letters_def)
  have "\<forall>c\<in>set (candidates ?p).
          c \<notin> fst ` set COURSE_TO_BADGE_SLUG \<and> c \<notin> set Object_prototype_keys"
    unfolding c by (simp add: COURSE_TO_BADGE_SLUG_def Object_prototype_keys_def)
  with resolveBadgeSlug_never_fails_default [of ?p] c show ?thesis
    by blast
qed

text \<open>
  The amended statement leaves one kind of candidate out. A candidate that names a member
  the table object inherits, such as a course id "Constructor", is neither a key of the
  table nor resolved to the default: the lookup returns the inherited function, and the
  badge query is made with its text.
\<close>

lemma inherited_member_is_not_a_slug:
  "resolveBadgeSlug \<lparr>param_badgeSlug = None, param_courseId = Some ''Constructor'',
                     param_courseName = None\<rparr> = Some (Object_member ''constructor'')
   \<and> fst (POST example_world example_env
           \<lparr>request_json = Some (JObject [(''name'', JString ''Jane Doe''),
                                           (''email'', JString ''jane@x.com''),
                                           (''courseId'', JString ''Constructor'')]),
            request_origin = ''https://badges.example''\<rparr>)
       = Returned (jsonResponse
           (Error_body (''Badge '' @ [CHR 0x27] @ ''function Object() { [native code] }''
                          @ [CHR 0x27] @ '' not found'')
              (Details (Some row_count_message))) 404)"
  by code_simp




section \<open>What each step reads and changes\<close>

lemma getSupabaseAdminClient_frame:
  "getSupabaseAdminClient w e = Inr w' \<Longrightarrow>
     db w' = db w \<and> storage w' = storage w \<and> outbox w' = outbox w
     \<and> resendClient w' = resendClient w \<and> supabaseAdminClient w'"
  by (auto simp: getSupabaseAdminClient_def split: if_splits)

lemma getSupabaseAdminClient_cached:
  "supabaseAdminClient w \<Longrightarrow> getSupabaseAdminClient w e = Inr w"
  by (simp add: getSupabaseAdminClient_def)

lemma createBucket_frame:
  "createBucket w e b pub = (r, w') \<Longrightarrow>
     db w' = db w \<and> outbox w' = outbox w \<and> resendClient w' = resendClient w
     \<and> supabaseAdminClient w' = supabaseAdminClient w"
  by (auto simp: createBucket_def split: option.splits if_splits)

lemma ensurePublicBucket_frame:
  "ensurePublicBucket w e = Inr w' \<Longrightarrow>
     db w' = db w \<and> outbox w' = outbox w \<and> resendClient w' = resendClient w
     \<and> supabaseAdminClient w'"
  by (auto simp: ensurePublicBucket_def
           split: sum.splits option.splits prod.splits if_splits
           dest!: createBucket_frame getSupabaseAdminClient_frame)

lemma upload_frame:
  "upload w e b path content opts = (r, w') \<Longrightarrow>
     db w' = db w \<and> outbox w' = outbox w \<and> resendClient w' = resendClient w
     \<and> supabaseAdminClient w' = supabaseAdminClient w"
  by (auto simp: upload_def split: option.splits if_splits)

lemma downloadTemplateFromStorage_frame:
  "downloadTemplateFromStorage w e = (r, w') \<Longrightarrow>
     db w' = db w \<and> outbox w' = outbox w \<and> resendClient w' = resendClient w
     \<and> (supabaseAdminClient w \<longrightarrow> supabaseAdminClient w')"
  by (auto simp: downloadTemplateFromStorage_def
           split: sum.splits option.splits prod.splits if_splits
           dest!: getSupabaseAdminClient_frame ensurePublicBucket_frame)

lemma buildCertificateHtml_frame:
  "buildCertificateHtml w e r l t = (res, w') \<Longrightarrow>
     db w' = db w \<and> outbox w' = outbox w \<and> resendClient w' = resendClient w
     \<and> (supabaseAdminClient w \<longrightarrow> supabaseAdminClient w')"
  by (auto simp: buildCertificateHtml_def Let_def
           split: sum.splits prod.splits
           dest!: downloadTemplateFromStorage_frame)

lemma generateCertificatePdf_frame:
  "generateCertificatePdf w e opts = (res, w') \<Longrightarrow>
     db w' = db w \<and> outbox w' = outbox w \<and> resendClient w' = resendClient w
     \<and> (supabaseAdminClient w \<longrightarrow> supabaseAdminClient w')"
  by (auto simp: generateCertificatePdf_def Let_def
           split: sum.splits prod.splits
           dest!: buildCertificateHtml_frame)

lemma generateCertificateAndUpload_frame:
  "generateCertificateAndUpload w e opts = (res, w') \<Longrightarrow>
     db w' = db w \<and> outbox w' = outbox w \<and> resendClient w' = resendClient w
     \<and> (supabaseAdminClient w \<longrightarrow> supabaseAdminClient w')"
  by (auto simp: generateCertificateAndUpload_def Let_def
           split: sum.splits prod.splits option.splits
           dest!: generateCertificatePdf_frame ensurePublicBucket_frame
                  getSupabaseAdminClient_frame upload_frame)

lemma sendAwardNotification_frame:
  "sendAwardNotification w e n = (res, w') \<Longrightarrow>
     db w' = db w \<and> storage w' = storage w
     \<and> supabaseAdminClient w' = supabaseAdminClient w"
  by (auto simp: sendAwardNotification_def getResendClient_def Let_def
           split: prod.splits if_splits delivery.splits option.splits)

section \<open>The datastore steps\<close>

lemma single_Data: "single f rows = Data r \<longleftrightarrow> f = None \<and> rows = [r]"
  by (auto simp: single_def split: option.splits list.splits)

lemma maybeSingle_Data: "maybeSingle f rows = Data r \<longleftrightarrow> f = None \<and> rows = [r]"
  by (auto simp: maybeSingle_def split: option.splits list.splits)

lemma maybeSingle_No_data: "maybeSingle f rows = No_data \<longleftrightarrow> f = None \<and> rows = []"
  by (auto simp: maybeSingle_def split: option.splits list.splits)

lemma maybeSingle_one: "maybeSingle f [r] = (case f of None \<Rightarrow> Data r | Some m \<Rightarrow> Query_error m)"
  by (auto simp: maybeSingle_def split: option.splits)

lemma is_error_jsonResponse [simp]: "is_error (jsonResponse (Error_body m d) s)"
  by (simp add: is_error_def jsonResponse_def)

lemma lookupBadge_Inr:
  "lookupBadge w e s = Inr b \<Longrightarrow>
     db_fault e Badge_lookup = None
     \<and> filter (\<lambda>x. badge_slug x = slug_text s) (badges (db w)) = [b]"
  by (auto simp: lookupBadge_def single_Data split: query_result.splits)

lemma lookupBadge_Inl: "lookupBadge w e s = Inl f \<Longrightarrow> is_error f"
  by (auto simp: lookupBadge_def split: query_result.splits)

lemma upsertPerson_Inl: "upsertPerson w e p = (Inl f, w') \<Longrightarrow> is_error f \<and> w' = w"
  by (auto simp: upsertPerson_def Let_def split: query_result.splits option.splits if_splits)

lemma upsertPerson_frame:
  "upsertPerson w e p = (r, w') \<Longrightarrow>
     badges (db w') = badges (db w) \<and> awards (db w') = awards (db w)
     \<and> storage w' = storage w \<and> outbox w' = outbox w
     \<and> supabaseAdminClient w' = supabaseAdminClient w \<and> resendClient w' = resendClient w"
  by (auto simp: upsertPerson_def Let_def split: query_result.splits option.splits if_splits)

lemma upsertPerson_Inr:
  assumes "upsertPerson w e p = (Inr pid, w')" "new_person_id e \<noteq> []"
  shows "pid \<noteq> [] \<and>
         ((\<exists>r. matching_people w' p = [r] \<and> person_id r = pid)
          \<or> 2 \<le> length (matching_people w' p))"
  using assms
  by (auto simp: upsertPerson_def Let_def matching_people_def maybeSingle_Data maybeSingle_No_data
           split: query_result.splits option.splits if_splits)

lemma upsertPerson_again:
  assumes "matching_people w p = [r]" "person_id r \<noteq> []"
  shows "upsertPerson w e p = (Inr (person_id r), w) \<or> (\<exists>f. upsertPerson w e p = (Inl f, w))"
  using assms
  by (auto simp: upsertPerson_def Let_def matching_people_def maybeSingle_one
           split: query_result.splits option.splits if_splits)

lemma upsertPerson_many:
  assumes "2 \<le> length (matching_people w p)"
  shows "\<exists>f. upsertPerson w e p = (Inl f, w)"
  using assms
  by (auto simp: upsertPerson_def Let_def matching_people_def maybeSingle_def
           split: query_result.splits option.splits if_splits list.splits)

lemma upsertAward_Inl: "upsertAward w e pid b d = (Inl f, w') \<Longrightarrow> is_error f \<and> w' = w"
  by (auto simp: upsertAward_def Let_def split: query_result.splits option.splits if_splits)

lemma upsertAward_frame:
  "upsertAward w e pid b d = (r, w') \<Longrightarrow>
     badges (db w') = badges (db w) \<and> people (db w') = people (db w)
     \<and> storage w' = storage w \<and> outbox w' = outbox w
     \<and> supabaseAdminClient w' = supabaseAdminClient w \<and> resendClient w' = resendClient w"
  by (auto simp: upsertAward_def Let_def split: query_result.splits option.splits if_splits)

lemma upsertAward_Inr:
  assumes "upsertAward w e pid b d = (Inr a, w')"
  shows "matching_awards w' pid b = [a]"
  using assms
  by (auto simp: upsertAward_def Let_def matching_awards_def maybeSingle_Data maybeSingle_No_data
           split: query_result.splits option.splits if_splits)

lemma upsertAward_again:
  assumes "matching_awards w pid b = [a]"
  shows "upsertAward w e pid b d = (Inr a, w) \<or> (\<exists>f. upsertAward w e pid b d = (Inl f, w))"
  using assms
  by (auto simp: upsertAward_def Let_def matching_awards_def maybeSingle_one
           split: query_result.splits option.splits if_splits)

lemma filter_singletonD: "filter P rows = [r] \<Longrightarrow> r \<in> set rows \<and> P r"
proof -
  assume "filter P rows = [r]"
  then have "r \<in> set (filter P rows)" by simp
  then show ?thesis by simp
qed

lemma upsertPerson_member:
  assumes "upsertPerson w e p = (Inr pid, w')"
  shows "\<exists>r\<in>set (people (db w')). person_email r = normalizedEmail (email p) \<and> person_id r = pid"
proof -
  from assms show ?thesis
    by (auto simp: upsertPerson_def Let_def maybeSingle_Data maybeSingle_No_data
             split: query_result.splits option.splits if_splits dest!: filter_singletonD)
qed

section \<open>Requests that end in a 200 response\<close>

lemma is_error_not_ok: "is_error f \<Longrightarrow> response_body f \<noteq> Ok_body b"
  by (auto simp: is_error_def)

lemma sendAwardNotification_Inr:
  assumes "sendAwardNotification w e n = (Inr st, w')"
  shows "(resendClient w' \<or> truthy_var (RESEND_API_KEY e)) \<and> truthy_var (RESEND_FROM_EMAIL e)
         \<longrightarrow> (\<forall>d. notify_personalizedDescription n = Some d \<and> truthy d \<longrightarrow> interpolates d)"
  using assms
  by (cases "notify_personalizedDescription n"; cases "send_result e")
     (auto simp: sendAwardNotification_def getResendClient_def Let_def
           split: prod.splits if_splits)

lemma sendAwardNotification_returns_if:
  assumes "(resendClient w \<or> truthy_var (RESEND_API_KEY e)) \<and> truthy_var (RESEND_FROM_EMAIL e)
         \<longrightarrow> (\<forall>d. notify_personalizedDescription n = Some d \<and> truthy d \<longrightarrow> interpolates d)"
  shows "\<exists>st w'. sendAwardNotification w e n = (Inr st, w')
                 \<and> (st = Sent \<longrightarrow> send_result e = Delivered)"
  using assms
  by (cases "notify_personalizedDescription n"; cases "send_result e")
     (auto simp: sendAwardNotification_def getResendClient_def Let_def split: prod.splits)

lemma issueAward_ok:
  assumes "issueAward w e origin p = (Returned r, wz)" "response_body r = Ok_body b"
  shows "\<exists>w0 s badge pid w1 a w2.
           getSupabaseAdminClient w e = Inr w0
           \<and> resolveBadgeSlug \<lparr>param_badgeSlug = badgeSlug p, param_courseId = courseId p,
                                param_courseName = courseName p\<rparr> = Some s
           \<and> lookupBadge w0 e s = Inr badge
           \<and> upsertPerson w0 e p = (Inr pid, w1)
           \<and> upsertAward w1 e pid badge (describe p) = (Inr a, w2)
           \<and> db wz = db w2 \<and> supabaseAdminClient wz
           \<and> view_id (ok_award b) = award_id a
           \<and> ok_badgeSlug b = badge_slug badge
           \<and> ok_recipientEmail b = normalizedEmail (email p)
           \<and> view_personalizedDescription (ok_award b) = describe p
           \<and> response_status r = 200
           \<and> ((resendClient wz \<or> truthy_var (RESEND_API_KEY e))
                 \<and> truthy_var (RESEND_FROM_EMAIL e)
               \<longrightarrow> (\<forall>d. describe p = Some d \<and> truthy d \<longrightarrow> interpolates d))"
proof -
  from assms obtain w0 where c: "getSupabaseAdminClient w e = Inr w0"
    by (cases "getSupabaseAdminClient w e") (auto simp: issueAward_def Let_def)
  from assms c obtain s where s: "resolveBadgeSlug \<lparr>param_badgeSlug = badgeSlug p,
      param_courseId = courseId p, param_courseName = courseName p\<rparr> = Some s" "truthy_slug s"
    by (auto simp: issueAward_def Let_def jsonResponse_def split: option.splits if_splits)
  from assms c s obtain badge where bd: "lookupBadge w0 e s = Inr badge"
    by (cases "lookupBadge w0 e s")
       (auto simp: issueAward_def Let_def dest: lookupBadge_Inl is_error_not_ok)
  from assms c s bd obtain pid w1 where up: "upsertPerson w0 e p = (Inr pid, w1)"
    by (cases "upsertPerson w0 e p"; cases "fst (upsertPerson w0 e p)")
       (auto simp: issueAward_def Let_def dest: upsertPerson_Inl is_error_not_ok)
  from assms c s bd up obtain a w2 where
    ua: "upsertAward w1 e pid badge (describe p) = (Inr a, w2)"
    by (cases "upsertAward w1 e pid badge (describe p)";
        cases "fst (upsertAward w1 e pid badge (describe p))")
       (auto simp: issueAward_def Let_def dest: upsertAward_Inl is_error_not_ok)
  let ?opts = "\<lparr>recipientName = name p,
                 issuedAt = (case award_issued_at a of Some t \<Rightarrow> t | None \<Rightarrow> now e),
                 verificationCode = award_id a, badgeTitle = badge_name badge\<rparr>"
  obtain g w3 where g: "generateCertificateAndUpload w2 e ?opts = (g, w3)"
    by (cases "generateCertificateAndUpload w2 e ?opts")
  from generateCertificateAndUpload_frame [OF g]
  have f3: "db w3 = db w2" "supabaseAdminClient w2 \<longrightarrow> supabaseAdminClient w3" by auto
  let ?n = "\<lparr>to = normalizedEmail (email p), notify_recipientName = name p,
             credentialName = badge_name badge,
             notify_verificationCode = award_id a,
             badgeUrl = origin @ ''/awards/'' @ award_id a,
             notify_personalizedDescription = describe p,
             certificateUrl = (case g of Inl thrown \<Rightarrow> None
                               | Inr certificate \<Rightarrow> Some (publicUrl certificate))\<rparr>"
  obtain nr w4 where n0: "sendAwardNotification w3 e ?n = (nr, w4)"
    by (cases "sendAwardNotification w3 e ?n")
  from assms c s bd up ua g n0 obtain st where
    n: "sendAwardNotification w3 e ?n = (Inr st, wz)"
    and rest: "view_id (ok_award b) = award_id a" "ok_badgeSlug b = badge_slug badge"
      "ok_recipientEmail b = normalizedEmail (email p)"
      "view_personalizedDescription (ok_award b) = describe p" "response_status r = 200"
    by (cases nr) (auto simp: issueAward_def Let_def jsonResponse_def)
  from sendAwardNotification_frame [OF n]
  have f4: "db wz = db w3" "supabaseAdminClient wz = supabaseAdminClient w3" by auto
  from sendAwardNotification_Inr [OF n]
  have dsc: "(resendClient wz \<or> truthy_var (RESEND_API_KEY e))
                 \<and> truthy_var (RESEND_FROM_EMAIL e)
               \<longrightarrow> (\<forall>d. describe p = Some d \<and> truthy d \<longrightarrow> interpolates d)" by simp
  from getSupabaseAdminClient_frame [OF c] have "supabaseAdminClient w0" by simp
  with upsertPerson_frame [OF up] upsertAward_frame [OF ua]
  have "supabaseAdminClient w2" by simp
  with f3 f4 have "db wz = db w2" "supabaseAdminClient wz" by simp_all
  with c s bd up ua rest dsc show ?thesis by blast
qed

lemma issueAward_replay:
  assumes client: "supabaseAdminClient w"
    and slug: "resolveBadgeSlug \<lparr>param_badgeSlug = badgeSlug p, param_courseId = courseId p,
                                  param_courseName = courseName p\<rparr> = Some s"
    and badge: "filter (\<lambda>x. badge_slug x = slug_text s) (badges (db w)) = [badge]"
    and person: "(\<exists>r. matching_people w p = [r] \<and> person_id r = pid \<and> pid \<noteq> [])
                 \<or> 2 \<le> length (matching_people w p)"
    and award: "matching_awards w pid badge = [a]"
  shows "db (snd (issueAward w e origin p)) = db w
         \<and> (\<forall>r b. fst (issueAward w e origin p) = Returned r \<and> response_body r = Ok_body b
               \<longrightarrow> view_id (ok_award b) = award_id a)"
proof -
  note c = getSupabaseAdminClient_cached [OF client, of e]
  show ?thesis
  proof (cases "truthy_slug s")
    case False
    with c slug show ?thesis by (simp add: issueAward_def Let_def jsonResponse_def)
  next
    case ts: True
    show ?thesis
    proof (cases "lookupBadge w e s")
      case (Inl f)
      with c slug ts lookupBadge_Inl [OF Inl] show ?thesis
        by (auto simp: issueAward_def Let_def dest: is_error_not_ok)
    next
      case (Inr badge')
      with lookupBadge_Inr [OF Inr] badge have bb: "badge' = badge" by simp
      note lb = Inr [unfolded bb]
      have "upsertPerson w e p = (Inr pid, w) \<or> (\<exists>f. upsertPerson w e p = (Inl f, w))"
        using person upsertPerson_again [of w p _ e] upsertPerson_many [of w p e] by auto
      then show ?thesis
      proof
        assume "\<exists>f. upsertPerson w e p = (Inl f, w)"
        then obtain f where f: "upsertPerson w e p = (Inl f, w)" ..
        with c slug ts lb upsertPerson_Inl [OF f] show ?thesis
          by (auto simp: issueAward_def Let_def dest: is_error_not_ok)
      next
        assume up: "upsertPerson w e p = (Inr pid, w)"
        from upsertAward_again [OF award, of e "describe p"]
        show ?thesis
        proof
          assume "\<exists>f. upsertAward w e pid badge (describe p) = (Inl f, w)"
          then obtain f where f: "upsertAward w e pid badge (describe p) = (Inl f, w)" ..
          with c slug ts lb up upsertAward_Inl [OF f] show ?thesis
            by (auto simp: issueAward_def Let_def dest: is_error_not_ok)
        next
          assume ua: "upsertAward w e pid badge (describe p) = (Inr a, w)"
          let ?opts = "\<lparr>recipientName = name p,
                 issuedAt = (case award_issued_at a of Some t \<Rightarrow> t | None \<Rightarrow> now e),
                 verificationCode = award_id a, badgeTitle = badge_name badge\<rparr>"
          obtain g w3 where g: "generateCertificateAndUpload w e ?opts = (g, w3)"
            by (cases "generateCertificateAndUpload w e ?opts")
          from generateCertificateAndUpload_frame [OF g] have f3: "db w3 = db w" by simp
          let ?n = "\<lparr>to = normalizedEmail (email p), notify_recipientName = name p,
                     credentialName = badge_name badge,
                     notify_verificationCode = award_id a,
                     badgeUrl = origin @ ''/awards/'' @ award_id a,
                     notify_personalizedDescription = describe p,
                     certificateUrl = (case g of Inl thrown \<Rightarrow> None
                                       | Inr certificate \<Rightarrow> Some (publicUrl certificate))\<rparr>"
          obtain st w4 where n: "sendAwardNotification w3 e ?n = (st, w4)"
            by (cases "sendAwardNotification w3 e ?n")
          from sendAwardNotification_frame [OF n] f3 have f4: "db w4 = db w" by simp
          from c slug ts lb up ua g n f4 show ?thesis
            by (cases st) (auto simp: issueAward_def Let_def jsonResponse_def)
        qed
      qed
    qed
  qed
qed

lemma ok_of_Some:
  "ok_of out = Some b \<longleftrightarrow>
     (\<exists>r. out = Returned r \<and> response_body r = Ok_body b \<and> response_status r = 200)"
  by (auto simp: ok_of_def split: outcome.splits body.splits if_splits)

lemma upsertPerson_Inr_one:
  assumes "upsertPerson w e p = (Inr pid, w')" "new_person_id e \<noteq> []"
    and "\<forall>x\<in>set (people (db w)). person_id x \<noteq> []"
  shows "\<exists>r. matching_people w' p = [r] \<and> person_id r = pid \<and> pid \<noteq> []"
  using assms
  by (auto simp: upsertPerson_def Let_def matching_people_def maybeSingle_Data maybeSingle_No_data
           split: query_result.splits option.splits if_splits dest!: filter_singletonD)

lemma issueAward_replay_ok:
  assumes client: "supabaseAdminClient w"
    and slug: "resolveBadgeSlug \<lparr>param_badgeSlug = badgeSlug p, param_courseId = courseId p,
                                  param_courseName = courseName p\<rparr> = Some s" "truthy_slug s"
    and badge: "filter (\<lambda>x. badge_slug x = slug_text s) (badges (db w)) = [badge]"
    and person: "matching_people w p = [r]" "person_id r = pid" "pid \<noteq> []"
    and award: "matching_awards w pid badge = [a]"
    and nofault: "\<forall>call. db_fault e call = None"
    and dsc: "(resendClient w \<or> truthy_var (RESEND_API_KEY e))
                 \<and> truthy_var (RESEND_FROM_EMAIL e)
               \<longrightarrow> (\<forall>d. describe p = Some d \<and> truthy d \<longrightarrow> interpolates d)"
  shows "\<exists>b. ok_of (fst (issueAward w e origin p)) = Some b"
proof -
  note c = getSupabaseAdminClient_cached [OF client, of e]
  from badge nofault have lb: "lookupBadge w e s = Inr badge"
    by (simp add: lookupBadge_def single_def)
  from person nofault have up: "upsertPerson w e p = (Inr pid, w)"
    by (simp add: upsertPerson_def matching_people_def maybeSingle_def Let_def)
  from award nofault have ua: "upsertAward w e pid badge (describe p) = (Inr a, w)"
    by (simp add: upsertAward_def matching_awards_def maybeSingle_def)
  let ?opts = "\<lparr>recipientName = name p,
                 issuedAt = (case award_issued_at a of Some t \<Rightarrow> t | None \<Rightarrow> now e),
                 verificationCode = award_id a, badgeTitle = badge_name badge\<rparr>"
  obtain g w3 where g: "generateCertificateAndUpload w e ?opts = (g, w3)"
    by (cases "generateCertificateAndUpload w e ?opts")
  from generateCertificateAndUpload_frame [OF g]
  have rc: "resendClient w3 = resendClient w" by simp
  let ?n = "\<lparr>to = normalizedEmail (email p), notify_recipientName = name p,
             credentialName = badge_name badge,
             notify_verificationCode = award_id a,
             badgeUrl = origin @ ''/awards/'' @ award_id a,
             notify_personalizedDescription = describe p,
             certificateUrl = (case g of Inl thrown \<Rightarrow> None
                               | Inr certificate \<Rightarrow> Some (publicUrl certificate))\<rparr>"
  from dsc rc have "(resendClient w3 \<or> truthy_var (RESEND_API_KEY e))
         \<and> truthy_var (RESEND_FROM_EMAIL e)
         \<longrightarrow> (\<forall>d. notify_personalizedDescription ?n = Some d \<and> truthy d \<longrightarrow> interpolates d)"
    by simp
  from sendAwardNotification_returns_if [OF this] obtain st w4 where
    n: "sendAwardNotification w3 e ?n = (Inr st, w4)" by blast
  from c slug lb up ua g n show ?thesis
    by (cases g) (auto simp: issueAward_def Let_def ok_of_def jsonResponse_def)
qed

section \<open>Idempotency of the endpoint\<close>

text \<open>
  C1: when a completion signal has been answered with the 200 response, processing the same
  signal again (with any failures, clock and generated ids in the second run) leaves the
  whole datastore as the first run left it: no award is inserted, and the stored
  \<open>issued_at\<close> and \<open>personalized_description\<close> are not updated. If the second run is
  answered with the 200 response, it carries the award id of the first. The person of the
  email address and the badge of the response then have exactly one award row, the one
  the responses name. The second run is answered with the 200 response when no datastore
  call of it fails, the email configuration is that of the first run and no stored person
  has an empty id. The datastore is assumed to generate non-empty identifiers.
\<close>

theorem repeated_signal_one_award:
  assumes first: "ok_of (fst (POST w e1 req)) = Some b1"
    and w1: "w1 = snd (POST w e1 req)"
    and fresh: "new_person_id e1 \<noteq> []"
    and same: "is_email e2 = is_email e1"
  shows "db (snd (POST w1 e2 req)) = db w1
     \<and> (\<forall>b2. ok_of (fst (POST w1 e2 req)) = Some b2
           \<longrightarrow> view_id (ok_award b2) = view_id (ok_award b1))
     \<and> (\<exists>r bd a. r \<in> set (people (db w1)) \<and> person_email r = ok_recipientEmail b1
           \<and> bd \<in> set (badges (db w1)) \<and> badge_slug bd = ok_badgeSlug b1
           \<and> filter (\<lambda>x. award_person_id x = person_id r \<and> award_badge_id x = badge_id bd)
                (awards (db w1)) = [a]
           \<and> award_id a = view_id (ok_award b1))
     \<and> ((\<forall>call. db_fault e2 call = None)
          \<and> RESEND_API_KEY e2 = RESEND_API_KEY e1
          \<and> RESEND_FROM_EMAIL e2 = RESEND_FROM_EMAIL e1
          \<and> (\<forall>x\<in>set (people (db w)). person_id x \<noteq> [])
        \<longrightarrow> (\<exists>b2. ok_of (fst (POST w1 e2 req)) = Some b2))"
proof -
  from first obtain r1 where out1: "fst (POST w e1 req) = Returned r1"
    and ok: "response_body r1 = Ok_body b1"
    by (auto simp: ok_of_Some)
  from out1 w1 have post1: "POST w e1 req = (Returned r1, w1)"
    by (simp add: prod_eq_iff)
  from post1 ok obtain j p where j: "request_json req = Some j"
    and p: "parsePayload (is_email e1) j = Some p"
    and ia: "issueAward w e1 (request_origin req) p = (Returned r1, w1)"
    by (auto simp: POST_def jsonResponse_def split: option.splits)
  from issueAward_ok [OF ia ok] obtain w0 s badge pid wp a wa where
    c: "getSupabaseAdminClient w e1 = Inr w0"
    and s: "resolveBadgeSlug \<lparr>param_badgeSlug = badgeSlug p, param_courseId = courseId p,
                              param_courseName = courseName p\<rparr> = Some s"
    and lb: "lookupBadge w0 e1 s = Inr badge"
    and up: "upsertPerson w0 e1 p = (Inr pid, wp)"
    and ua: "upsertAward wp e1 pid badge (describe p) = (Inr a, wa)"
    and fin: "db w1 = db wa" "supabaseAdminClient w1"
    and view: "view_id (ok_award b1) = award_id a" "ok_badgeSlug b1 = badge_slug badge"
      "ok_recipientEmail b1 = normalizedEmail (email p)"
    and dsc1: "(resendClient w1 \<or> truthy_var (RESEND_API_KEY e1))
                 \<and> truthy_var (RESEND_FROM_EMAIL e1)
               \<longrightarrow> (\<forall>d. describe p = Some d \<and> truthy d \<longrightarrow> interpolates d)"
    by blast
  from ia ok s have ts: "truthy_slug s"
    using c by (auto simp: issueAward_def Let_def jsonResponse_def split: if_splits)
  have db0: "db w0 = db w" using getSupabaseAdminClient_frame [OF c] by simp
  note fp = upsertPerson_frame [OF up]
  note fa = upsertAward_frame [OF ua]
  have badges1: "badges (db w1) = badges (db w0)" using fin fp fa by simp
  have people1: "people (db w1) = people (db wp)" using fin fa by simp
  have awards1: "awards (db w1) = awards (db wa)" using fin by simp
  from lookupBadge_Inr [OF lb] badges1
  have badge: "filter (\<lambda>x. badge_slug x = slug_text s) (badges (db w1)) = [badge]" by simp
  have mp: "matching_people w1 p = matching_people wp p"
    by (simp add: matching_people_def people1)
  from upsertPerson_Inr [OF up fresh] mp
  have person: "(\<exists>r. matching_people w1 p = [r] \<and> person_id r = pid \<and> pid \<noteq> [])
                 \<or> 2 \<le> length (matching_people w1 p)" by auto
  from upsertAward_Inr [OF ua] awards1
  have award: "matching_awards w1 pid badge = [a]" by (simp add: matching_awards_def)
  from issueAward_replay [OF fin(2) s badge person award, of e2 "request_origin req"]
  have replay: "db (snd (issueAward w1 e2 (request_origin req) p)) = db w1
         \<and> (\<forall>r b. fst (issueAward w1 e2 (request_origin req) p) = Returned r
                 \<and> response_body r = Ok_body b
               \<longrightarrow> view_id (ok_award b) = award_id a)" .
  have post2: "POST w1 e2 req = issueAward w1 e2 (request_origin req) p"
    using j p same by (simp add: POST_def)
  from upsertPerson_member [OF up] people1 obtain r where
    r: "r \<in> set (people (db w1))" "person_email r = normalizedEmail (email p)"
       "person_id r = pid" by auto
  from filter_singletonD [OF badge] have bmem: "badge \<in> set (badges (db w1))" by simp
  from award r(3) have one:
    "filter (\<lambda>x. award_person_id x = person_id r \<and> award_badge_id x = badge_id badge)
       (awards (db w1)) = [a]" by (simp add: matching_awards_def)
  have progress: "\<exists>b2. ok_of (fst (POST w1 e2 req)) = Some b2"
    if quiet: "(\<forall>call. db_fault e2 call = None)
          \<and> RESEND_API_KEY e2 = RESEND_API_KEY e1
          \<and> RESEND_FROM_EMAIL e2 = RESEND_FROM_EMAIL e1
          \<and> (\<forall>x\<in>set (people (db w)). person_id x \<noteq> [])"
  proof -
    from quiet db0 have ids: "\<forall>x\<in>set (people (db w0)). person_id x \<noteq> []" by simp
    from upsertPerson_Inr_one [OF up fresh ids] mp obtain r' where
      r': "matching_people w1 p = [r']" "person_id r' = pid" "pid \<noteq> []" by auto
    from dsc1 quiet have dsc2: "(resendClient w1 \<or> truthy_var (RESEND_API_KEY e2))
                 \<and> truthy_var (RESEND_FROM_EMAIL e2)
               \<longrightarrow> (\<forall>d. describe p = Some d \<and> truthy d \<longrightarrow> interpolates d)" by simp
    from quiet have nofault: "\<forall>call. db_fault e2 call = None" by simp
    from issueAward_replay_ok [OF fin(2) s ts badge r' award nofault dsc2,
        of "request_origin req"] post2
    show ?thesis by simp
  qed
  from replay post2 view r bmem one progress show ?thesis by (auto simp: ok_of_Some)
qed

theorem repeated_signal_one_award_witness:
  "map_option (view_id \<circ> ok_award) (ok_of (fst (POST example_world example_env example_request)))
     = Some ''award-1''
   \<and> map_option (view_id \<circ> ok_award)
       (ok_of (fst (POST (snd (POST example_world example_env example_request))
                      example_env_later example_request)))
     = Some ''award-1''
   \<and> db (snd (POST (snd (POST example_world example_env example_request))
                 example_env_later example_request))
     = db (snd (POST example_world example_env example_request))
   \<and> map award_id (awards (db (snd (POST (snd (POST example_world example_env example_request))
                 example_env_later example_request)))) = [''award-1'']"
proof -
  let ?w1 = "snd (POST example_world example_env example_request)"
  have one: "map_option (view_id \<circ> ok_award)
               (ok_of (fst (POST example_world example_env example_request))) = Some ''award-1''"
    by code_simp
  then obtain b1 where b1: "ok_of (fst (POST example_world example_env example_request)) = Some b1"
    by auto
  have fresh: "new_person_id example_env \<noteq> []" by (simp add: example_env_def)
  have same: "is_email example_env_later = is_email example_env"
    by (simp add: example_env_later_def)
  have two: "map_option (view_id \<circ> ok_award)
       (ok_of (fst (POST ?w1 example_env_later example_request))) = Some ''award-1''"
    by code_simp
  have rows: "map award_id (awards (db ?w1)) = [''award-1'']"
    by code_simp
  from repeated_signal_one_award [OF b1 refl fresh same]
  have "db (snd (POST ?w1 example_env_later example_request)) = db ?w1" by blast
  with one two rows show ?thesis by simp
qed

section \<open>What a request does to the datastore\<close>

lemma upsertPerson_existing:
  assumes "r \<in> set (people (db w))" "person_email r = normalizedEmail (email p)"
    and "person_id r \<noteq> []" and "upsertPerson w e p = (res, w')"
  shows "w' = w \<and> (\<forall>pid. res = Inr pid \<longrightarrow> pid = person_id r)"
proof -
  from assms(1,2) have mem: "r \<in> set (matching_people w p)"
    by (simp add: matching_people_def)
  show ?thesis
  proof (cases "matching_people w p")
    case Nil
    with mem show ?thesis by simp
  next
    case (Cons x xs)
    show ?thesis
    proof (cases xs)
      case Nil
      with Cons mem have "matching_people w p = [r]" by simp
      with assms(3,4) show ?thesis
        by (auto simp: upsertPerson_def Let_def matching_people_def maybeSingle_one
                 split: option.splits)
    next
      case (Cons y ys)
      with \<open>matching_people w p = x # xs\<close> have "2 \<le> length (matching_people w p)" by simp
      from upsertPerson_many [OF this, of e] assms(4) show ?thesis by auto
    qed
  qed
qed

lemma upsertAward_effect:
  assumes "upsertAward w e pid b d = (res, w')"
  shows "awards (db w') = awards (db w)
         \<or> (\<exists>a. awards (db w') = awards (db w) @ [a] \<and> res = Inr a
               \<and> award_id a = new_award_id e
               \<and> award_person_id a = pid \<and> award_badge_id a = badge_id b
               \<and> award_issued_at a = Some (now e)
               \<and> award_personalized_description a = (if d = Some JNull then None else d))"
  using assms
  by (auto simp: upsertAward_def Let_def split: query_result.splits option.splits)

lemma issueAward_db:
  "db (snd (issueAward w e origin p)) = db w
   \<or> (\<exists>w0 s badge pid wp res wa.
         getSupabaseAdminClient w e = Inr w0
         \<and> lookupBadge w0 e s = Inr badge
         \<and> upsertPerson w0 e p = (Inr pid, wp)
         \<and> upsertAward wp e pid badge (describe p) = (res, wa)
         \<and> db (snd (issueAward w e origin p)) = db wa)"
proof (cases "getSupabaseAdminClient w e")
  case (Inl thrown)
  then show ?thesis by (simp add: issueAward_def Let_def)
next
  case c: (Inr w0)
  from getSupabaseAdminClient_frame [OF c] have db0: "db w0 = db w" by simp
  let ?params = "\<lparr>param_badgeSlug = badgeSlug p, param_courseId = courseId p,
                   param_courseName = courseName p\<rparr>"
  show ?thesis
  proof (cases "resolveBadgeSlug ?params")
    case None
    with c db0 show ?thesis by (simp add: issueAward_def Let_def)
  next
    case s: (Some s)
    show ?thesis
    proof (cases "truthy_slug s")
      case False
      with c s db0 show ?thesis by (simp add: issueAward_def Let_def)
    next
      case ts: True
      show ?thesis
      proof (cases "lookupBadge w0 e s")
        case (Inl f)
        with c s ts db0 show ?thesis by (simp add: issueAward_def Let_def)
      next
        case lb: (Inr badge)
        obtain rp wp where up: "upsertPerson w0 e p = (rp, wp)"
          by (cases "upsertPerson w0 e p")
        show ?thesis
        proof (cases rp)
          case (Inl f)
          with up upsertPerson_Inl [of w0 e p f wp] c s ts lb db0 show ?thesis
            by (simp add: issueAward_def Let_def)
        next
          case (Inr pid)
          note up = up [unfolded Inr]
          obtain ra wa where ua: "upsertAward wp e pid badge (describe p) = (ra, wa)"
            by (cases "upsertAward wp e pid badge (describe p)")
          have "db (snd (issueAward w e origin p)) = db wa"
          proof (cases ra)
            case (Inl f)
            with c s ts lb up ua show ?thesis by (simp add: issueAward_def Let_def)
          next
            case (Inr a)
            let ?opts = "\<lparr>recipientName = name p,
                 issuedAt = (case award_issued_at a of Some t \<Rightarrow> t | None \<Rightarrow> now e),
                 verificationCode = award_id a, badgeTitle = badge_name badge\<rparr>"
            obtain g w3 where g: "generateCertificateAndUpload wa e ?opts = (g, w3)"
              by (cases "generateCertificateAndUpload wa e ?opts")
            from generateCertificateAndUpload_frame [OF g] have f3: "db w3 = db wa" by simp
            let ?n = "\<lparr>to = normalizedEmail (email p), notify_recipientName = name p,
                     credentialName = badge_name badge,
                     notify_verificationCode = award_id a,
                     badgeUrl = origin @ ''/awards/'' @ award_id a,
                     notify_personalizedDescription = describe p,
                     certificateUrl = (case g of Inl thrown \<Rightarrow> None
                                       | Inr certificate \<Rightarrow> Some (publicUrl certificate))\<rparr>"
            obtain st w4 where n: "sendAwardNotification w3 e ?n = (st, w4)"
              by (cases "sendAwardNotification w3 e ?n")
            from sendAwardNotification_frame [OF n] f3 have f4: "db w4 = db wa" by simp
            from c s ts lb up ua Inr g n f4 show ?thesis
              by (cases st) (simp_all add: issueAward_def Let_def)
          qed
          with c lb up ua show ?thesis by blast
        qed
      qed
    qed
  qed
qed

section \<open>Re-sighting a person\<close>

text \<open>
  C9: when a row of the people table carries the normalized email of the request (and a
  non-empty id, as every generated id is), the request leaves the people table exactly as
  it was, so the stored name stands whatever name the payload gives; and an award the
  request inserts refers to that row's id.
\<close>

theorem existing_person_reused:
  assumes j: "request_json req = Some j" and p: "parsePayload (is_email e) j = Some p"
    and found: "r \<in> set (people (db w))" "person_email r = normalizedEmail (email p)"
    and id: "person_id r \<noteq> []"
  shows "people (db (snd (POST w e req))) = people (db w)
       \<and> (awards (db (snd (POST w e req))) = awards (db w)
          \<or> (\<exists>a. awards (db (snd (POST w e req))) = awards (db w) @ [a]
                \<and> award_person_id a = person_id r))"
proof -
  have post: "POST w e req = issueAward w e (request_origin req) p"
    using j p by (simp add: POST_def)
  from issueAward_db [of w e "request_origin req" p]
  show ?thesis
  proof
    assume "db (snd (issueAward w e (request_origin req) p)) = db w"
    with post show ?thesis by simp
  next
    assume "\<exists>w0 s badge pid wp res wa.
         getSupabaseAdminClient w e = Inr w0
         \<and> lookupBadge w0 e s = Inr badge
         \<and> upsertPerson w0 e p = (Inr pid, wp)
         \<and> upsertAward wp e pid badge (describe p) = (res, wa)
         \<and> db (snd (issueAward w e (request_origin req) p)) = db wa"
    then obtain w0 s badge pid wp res wa where
      c: "getSupabaseAdminClient w e = Inr w0"
      and up: "upsertPerson w0 e p = (Inr pid, wp)"
      and ua: "upsertAward wp e pid badge (describe p) = (res, wa)"
      and fin: "db (snd (issueAward w e (request_origin req) p)) = db wa"
      by blast
    from getSupabaseAdminClient_frame [OF c] have db0: "db w0 = db w" by simp
    from found db0 have found0: "r \<in> set (people (db w0))" by simp
    from upsertPerson_existing [OF found0 found(2) id up]
    have wp: "wp = w0" and pid: "pid = person_id r" by auto
    from upsertAward_frame [OF ua] wp db0
    have people: "people (db wa) = people (db w)" by simp
    from upsertAward_effect [OF ua] wp db0 pid
    have "awards (db wa) = awards (db w)
          \<or> (\<exists>a. awards (db wa) = awards (db w) @ [a] \<and> award_person_id a = person_id r)"
      by auto
    with people fin post show ?thesis by simp
  qed
qed

theorem existing_person_reused_witness:
  "people (db (snd (POST example_world_registered example_env example_request_respelled)))
     = [\<lparr>person_id = ''person-0'', person_name = ''Jane Doe'', person_email = ''jane@x.com''\<rparr>]
   \<and> map award_person_id
        (awards (db (snd (POST example_world_registered example_env example_request_respelled))))
     = [''person-0'']"
proof -
  let ?p = "\<lparr>name = ''J. Doe-Smith'', email = ''JANE@X.com'', badgeSlug = None,
             courseId = Some ''gsp'', courseName = None, personalizedDescription = None\<rparr>"
  let ?r = "\<lparr>person_id = ''person-0'', person_name = ''Jane Doe'',
             person_email = ''jane@x.com''\<rparr>"
  have j: "request_json example_request_respelled
             = Some (JObject [(''name'', JString ''J. Doe-Smith''),
                              (''email'', JString ''JANE@X.com''),
                              (''courseId'', JString ''gsp'')])"
    by (simp add: example_request_respelled_def)
  have p: "parsePayload (is_email example_env)
             (JObject [(''name'', JString ''J. Doe-Smith''),
                       (''email'', JString ''JANE@X.com''),
                       (''courseId'', JString ''gsp'')]) = Some ?p"
    by code_simp
  have people: "people (db example_world_registered) = [?r]"
    by (simp add: example_world_registered_def)
  have mem: "?r \<in> set (people (db example_world_registered))"
    by (simp add: people)
  have em: "person_email ?r = normalizedEmail (email ?p)"
    by code_simp
  have id: "person_id ?r \<noteq> []" by simp
  have aw: "map award_person_id
        (awards (db (snd (POST example_world_registered example_env example_request_respelled))))
     = [''person-0'']"
    by code_simp
  from existing_person_reused [OF j p mem em id] people aw
  show ?thesis by simp
qed

section \<open>One person per normalized address\<close>

lemma toLowerCase_Nil_iff: "toLowerCase s = [] \<longleftrightarrow> s = []"
  by (simp add: toLowerCase_def)

lemma trim_Nil [simp]: "trim [] = []"
  by (simp add: trim_def)

lemma normalizedEmail_nonblank:
  assumes "trim a \<noteq> []"
  shows "normalizedEmail a = toLowerCase (trim a)"
proof -
  from assms have "a \<noteq> []" by auto
  with assms show ?thesis by (simp add: normalizedEmail_def toLowerCase_Nil_iff)
qed

text \<open>
  The person step on its own (lines 165-198) does not tell apart two non-blank addresses
  that are equal after trimming and lower-casing, padded or not.
\<close>

lemma upsertPerson_normalizes:
  assumes "toLowerCase (trim a2) = toLowerCase (trim a1)" "trim a1 \<noteq> []"
  shows "normalizedEmail a1 = toLowerCase (trim a1)
       \<and> normalizedEmail a2 = normalizedEmail a1
       \<and> upsertPerson w e (p\<lparr>email := a2\<rparr>) = upsertPerson w e (p\<lparr>email := a1\<rparr>)"
proof -
  from assms have "trim a2 \<noteq> []" by (metis toLowerCase_Nil_iff)
  with assms have n: "normalizedEmail a1 = toLowerCase (trim a1)"
    "normalizedEmail a2 = normalizedEmail a1"
    by (simp_all add: normalizedEmail_nonblank)
  from n(2) have "upsertPerson w e (p\<lparr>email := a2\<rparr>) = upsertPerson w e (p\<lparr>email := a1\<rparr>)"
    by (simp add: upsertPerson_def Let_def
             cong: query_result.case_cong option.case_cong if_cong)
  with n show ?thesis by simp
qed

lemma z_email_examples:
  "z_email ''jane@x.com'' \<and> z_email ''Jane@X.com''
   \<and> z_email (''o'' @ [CHR 0x27] @ ''neil+tag@mail.green-software.foundation'')
   \<and> \<not> z_email '' jane@x.com '' \<and> \<not> z_email ''jane@x.com ''
   \<and> \<not> z_email ''jane@x'' \<and> \<not> z_email ''jane@x.c'' \<and> \<not> z_email ''a@b@x.com''
   \<and> \<not> z_email ''.jane@x.com'' \<and> \<not> z_email ''ja..ne@x.com'' \<and> \<not> z_email ''jane.@x.com''"
  by code_simp

lemma white_space_not_in_address:
  "list_all (\<lambda>c. \<not> local_char c \<and> \<not> is_alphanumeric c \<and> \<not> is_letter c
                  \<and> c \<noteq> CHR ''@'' \<and> c \<noteq> CHR ''.'' \<and> c \<noteq> CHR ''-'')
     [CHR 0x09, CHR 0x0A, CHR 0x0B, CHR 0x0C, CHR 0x0D, CHR '' '']"
  by code_simp

lemma is_white_space_D:
  assumes "is_white_space c"
  shows "\<not> local_char c \<and> \<not> is_alphanumeric c \<and> \<not> is_letter c
         \<and> c \<noteq> CHR ''@'' \<and> c \<noteq> CHR ''.'' \<and> c \<noteq> CHR ''-''"
  using assms white_space_not_in_address
  unfolding is_white_space_def list_all_iff by blast

lemma split_str_chars:
  "c \<in> set s \<Longrightarrow> c = sep \<or> (\<exists>part\<in>set (split_str sep s). c \<in> set part)"
  by (induction s) (auto split: list.splits)

lemma z_email_no_white_space:
  assumes "z_email s"
  shows "s \<noteq> [] \<and> (\<forall>c\<in>set s. \<not> is_white_space c)"
proof -
  let ?local = "takeWhile (\<lambda>c. c \<noteq> CHR ''@'') s"
  let ?rest = "dropWhile (\<lambda>c. c \<noteq> CHR ''@'') s"
  let ?labels = "split_str CHR ''.'' (tl ?rest)"
  from assms have local: "?local \<noteq> []" "list_all local_char ?local"
    and rest: "?rest \<noteq> []"
    and labels: "2 \<le> length ?labels" "list_all domain_label (butlast ?labels)"
      "top_level (last ?labels)"
    by (simp_all add: z_email_def Let_def)
  from local(1) have nonempty: "s \<noteq> []" by auto
  have s: "s = ?local @ ?rest" by simp
  from rest have at: "hd ?rest = CHR ''@''" using hd_dropWhile [of "\<lambda>c. c \<noteq> CHR ''@''" s] by simp
  from labels(1) have parts: "?labels = butlast ?labels @ [last ?labels]"
    by (cases ?labels) auto
  have "\<not> is_white_space c" if c: "c \<in> set s" for c
  proof
    assume ws: "is_white_space c"
    note no = is_white_space_D [OF ws]
    from c s have "c \<in> set ?local \<or> c \<in> set ?rest" by (metis Un_iff set_append)
    then show False
    proof
      assume "c \<in> set ?local"
      with local(2) no show False by (auto simp: list_all_iff)
    next
      assume "c \<in> set ?rest"
      with rest at have "c = CHR ''@'' \<or> c \<in> set (tl ?rest)"
        by (cases ?rest) auto
      with no have "c \<in> set (tl ?rest)" by simp
      from split_str_chars [OF this, of "CHR ''.''"] no obtain part where
        part: "part \<in> set ?labels" "c \<in> set part" by auto
      from part(1) parts have "part \<in> set (butlast ?labels) \<or> part = last ?labels"
        by (metis Un_iff set_append list.set_intros(1) set_ConsD empty_set empty_iff)
      then show False
      proof
        assume "part \<in> set (butlast ?labels)"
        with labels(2) have dl: "domain_label part" by (simp add: list_all_iff)
        from part(2) have "part \<noteq> []" by auto
        with part(2) have "c = hd part \<or> c \<in> set (tl part)" by (cases part) auto
        with dl no show False by (auto simp: domain_label_def list_all_iff)
      next
        assume "part = last ?labels"
        with labels(3) part(2) no show False by (auto simp: top_level_def list_all_iff)
      qed
    qed
  qed
  with nonempty show ?thesis by simp
qed

lemma trim_without_white_space:
  assumes "\<forall>c\<in>set s. \<not> is_white_space c"
  shows "trim s = s"
proof -
  from assms have "dropWhile is_white_space s = s" by (cases s) auto
  moreover from assms have "dropWhile is_white_space (rev s) = rev s" by (cases "rev s") auto
  ultimately show ?thesis by (simp add: trim_def)
qed

lemma z_email_normalizedEmail:
  assumes "z_email a"
  shows "trim a = a \<and> a \<noteq> [] \<and> normalizedEmail a = toLowerCase a"
proof -
  from z_email_no_white_space [OF assms] have "a \<noteq> []" "trim a = a"
    by (simp_all add: trim_without_white_space)
  with normalizedEmail_nonblank [of a] show ?thesis by simp
qed

lemma parsePayload_email:
  assumes "parsePayload check j = Some p"
  shows "check (email p)"
  using assms
  by (auto simp: parsePayload_def supabaseWebhookSchema_def recordSchema_def
                 directPayloadSchema_def
           split: option.splits json.splits if_splits)

lemma issueAward_people_kept:
  assumes found: "r \<in> set (people (db w))" "person_email r = normalizedEmail (email p)"
    and id: "person_id r \<noteq> []"
  shows "people (db (snd (issueAward w e origin p))) = people (db w)"
proof -
  from issueAward_db [of w e origin p]
  show ?thesis
  proof
    assume "db (snd (issueAward w e origin p)) = db w"
    then show ?thesis by simp
  next
    assume "\<exists>w0 s badge pid wp res wa.
         getSupabaseAdminClient w e = Inr w0
         \<and> lookupBadge w0 e s = Inr badge
         \<and> upsertPerson w0 e p = (Inr pid, wp)
         \<and> upsertAward wp e pid badge (describe p) = (res, wa)
         \<and> db (snd (issueAward w e origin p)) = db wa"
    then obtain w0 s badge pid wp res wa where
      c: "getSupabaseAdminClient w e = Inr w0"
      and up: "upsertPerson w0 e p = (Inr pid, wp)"
      and ua: "upsertAward wp e pid badge (describe p) = (res, wa)"
      and fin: "db (snd (issueAward w e origin p)) = db wa"
      by blast
    from getSupabaseAdminClient_frame [OF c] have db0: "db w0 = db w" by simp
    from found db0 have found0: "r \<in> set (people (db w0))" by simp
    from upsertPerson_existing [OF found0 found(2) id up] have wp: "wp = w0" by simp
    from upsertAward_frame [OF ua] wp db0 fin show ?thesis by simp
  qed
qed

text \<open>
  C6 is about two addresses that are equal after trimming and lower-casing. Both schemas
  validate the address as it was sent (lines 16 and 31); it is normalized only afterwards
  (line 166). For two payloads the schemas accept, with such addresses: trimming changes
  neither address, so they differ in letter case only. When the first request has been
  answered with the 200 response, the people table holds exactly one row under the
  lower-cased address, which is the address the response echoes. The lookup of the second
  request selects that row and, unless the query fails, the person step returns its id
  without writing. The second request leaves the people table as it was, and when it is
  answered with the 200 response, the response carries the same address and its award row
  refers to that person. The datastore is assumed to generate non-empty identifiers.
\<close>

theorem accepted_addresses_share_person:
  assumes format: "is_email e1 = z_email" "is_email e2 = z_email"
    and req1: "request_json req1 = Some j1" "parsePayload (is_email e1) j1 = Some p1"
    and req2: "request_json req2 = Some j2" "parsePayload (is_email e2) j2 = Some p2"
    and eq: "toLowerCase (trim (email p2)) = toLowerCase (trim (email p1))"
    and first: "ok_of (fst (POST w e1 req1)) = Some b1"
    and w1: "w1 = snd (POST w e1 req1)"
    and fresh: "new_person_id e1 \<noteq> []"
    and ids: "\<forall>x\<in>set (people (db w)). person_id x \<noteq> []"
  shows "trim (email p1) = email p1 \<and> trim (email p2) = email p2
     \<and> ok_recipientEmail b1 = toLowerCase (email p1)
     \<and> (\<exists>r. filter (\<lambda>x. person_email x = toLowerCase (email p1)) (people (db w1)) = [r]
           \<and> matching_people w1 p2 = [r]
           \<and> (db_fault e2 Person_lookup = None
                \<longrightarrow> upsertPerson w1 e2 p2 = (Inr (person_id r), w1))
           \<and> people (db (snd (POST w1 e2 req2))) = people (db w1)
           \<and> (\<forall>b2. ok_of (fst (POST w1 e2 req2)) = Some b2
                 \<longrightarrow> ok_recipientEmail b2 = person_email r
                     \<and> (\<exists>a\<in>set (awards (db (snd (POST w1 e2 req2)))).
                           award_id a = view_id (ok_award b2)
                           \<and> award_person_id a = person_id r)))"
proof -
  from req1 req2 format have "z_email (email p1)" "z_email (email p2)"
    by (auto dest: parsePayload_email)
  from this [THEN z_email_normalizedEmail]
  have t1: "trim (email p1) = email p1" and t2: "trim (email p2) = email p2"
    and n1: "normalizedEmail (email p1) = toLowerCase (email p1)"
    and n2: "normalizedEmail (email p2) = toLowerCase (email p2)" by simp_all
  from eq t1 t2 n1 n2 have n: "normalizedEmail (email p2) = normalizedEmail (email p1)" by simp
  from first obtain r1 where out1: "fst (POST w e1 req1) = Returned r1"
    and ok: "response_body r1 = Ok_body b1"
    by (auto simp: ok_of_Some)
  from out1 w1 have post1: "POST w e1 req1 = (Returned r1, w1)"
    by (simp add: prod_eq_iff)
  with req1 have ia: "issueAward w e1 (request_origin req1) p1 = (Returned r1, w1)"
    by (simp add: POST_def)
  from issueAward_ok [OF ia ok] obtain w0 badge1 pid wp a1 wa where
    c: "getSupabaseAdminClient w e1 = Inr w0"
    and up: "upsertPerson w0 e1 p1 = (Inr pid, wp)"
    and ua: "upsertAward wp e1 pid badge1 (describe p1) = (Inr a1, wa)"
    and fin: "db w1 = db wa" "supabaseAdminClient w1"
    and view: "ok_recipientEmail b1 = normalizedEmail (email p1)"
    by blast
  from upsertAward_frame [OF ua] have wa: "people (db wa) = people (db wp)" by simp
  have db0: "db w0 = db w" using getSupabaseAdminClient_frame [OF c] by simp
  with ids have ids0: "\<forall>x\<in>set (people (db w0)). person_id x \<noteq> []" by simp
  from upsertPerson_Inr_one [OF up fresh ids0] obtain r where
    r: "matching_people wp p1 = [r]" "person_id r = pid" "pid \<noteq> []" by blast
  from fin wa have people1: "people (db w1) = people (db wp)" by simp
  with r(1) have one: "matching_people w1 p1 = [r]" by (simp add: matching_people_def)
  with n have two: "matching_people w1 p2 = [r]" by (simp add: matching_people_def)
  from one n1 have stored:
    "filter (\<lambda>x. person_email x = toLowerCase (email p1)) (people (db w1)) = [r]"
    by (simp add: matching_people_def)
  from filter_singletonD [OF stored] n n1
  have mem: "r \<in> set (people (db w1))" and em: "person_email r = normalizedEmail (email p2)"
    and em1: "person_email r = toLowerCase (email p1)"
    by simp_all
  from r have id: "person_id r \<noteq> []" by simp
  have lookup: "upsertPerson w1 e2 p2 = (Inr (person_id r), w1)"
    if "db_fault e2 Person_lookup = None"
    using that two id
    by (simp add: upsertPerson_def matching_people_def maybeSingle_one Let_def)
  have post2: "POST w1 e2 req2 = issueAward w1 e2 (request_origin req2) p2"
    using req2 by (simp add: POST_def)
  from issueAward_people_kept [OF mem em id] post2
  have kept: "people (db (snd (POST w1 e2 req2))) = people (db w1)" by simp
  have second: "ok_recipientEmail b2 = person_email r
        \<and> (\<exists>a\<in>set (awards (db (snd (POST w1 e2 req2)))).
              award_id a = view_id (ok_award b2) \<and> award_person_id a = person_id r)"
    if "ok_of (fst (POST w1 e2 req2)) = Some b2" for b2
  proof -
    from that obtain r2 where out2: "fst (POST w1 e2 req2) = Returned r2"
      and ok2: "response_body r2 = Ok_body b2"
      by (auto simp: ok_of_Some)
    from out2 post2
    have ia2: "issueAward w1 e2 (request_origin req2) p2 = (Returned r2, snd (POST w1 e2 req2))"
      by (simp add: prod_eq_iff)
    from issueAward_ok [OF ia2 ok2] obtain v0 badge pid2 vp a va where
      c2: "getSupabaseAdminClient w1 e2 = Inr v0"
      and up2: "upsertPerson v0 e2 p2 = (Inr pid2, vp)"
      and ua2: "upsertAward vp e2 pid2 badge (describe p2) = (Inr a, va)"
      and fin2: "db (snd (POST w1 e2 req2)) = db va"
      and view2: "view_id (ok_award b2) = award_id a"
        "ok_recipientEmail b2 = normalizedEmail (email p2)"
      by blast
    from getSupabaseAdminClient_frame [OF c2] mem have mem0: "r \<in> set (people (db v0))"
      by simp
    from upsertPerson_existing [OF mem0 em id up2] have pid2: "pid2 = person_id r" by simp
    from filter_singletonD [OF upsertAward_Inr [OF ua2, unfolded matching_awards_def]] pid2
    have "a \<in> set (awards (db va))" "award_person_id a = person_id r" by simp_all
    with fin2 view2 em show ?thesis by auto
  qed
  from view n1 have "ok_recipientEmail b1 = toLowerCase (email p1)" by simp
  moreover have "filter (\<lambda>x. person_email x = toLowerCase (email p1)) (people (db w1)) = [r]
           \<and> matching_people w1 p2 = [r]
           \<and> (db_fault e2 Person_lookup = None
                \<longrightarrow> upsertPerson w1 e2 p2 = (Inr (person_id r), w1))
           \<and> people (db (snd (POST w1 e2 req2))) = people (db w1)
           \<and> (\<forall>b2. ok_of (fst (POST w1 e2 req2)) = Some b2
                 \<longrightarrow> ok_recipientEmail b2 = person_email r
                     \<and> (\<exists>a\<in>set (awards (db (snd (POST w1 e2 req2)))).
                           award_id a = view_id (ok_award b2)
                           \<and> award_person_id a = person_id r))"
  proof (intro conjI allI impI)
    show "filter (\<lambda>x. person_email x = toLowerCase (email p1)) (people (db w1)) = [r]"
      by (fact stored)
    show "matching_people w1 p2 = [r]" by (fact two)
    show "upsertPerson w1 e2 p2 = (Inr (person_id r), w1)"
      if "db_fault e2 Person_lookup = None" using lookup [OF that] .
    show "people (db (snd (POST w1 e2 req2))) = people (db w1)" by (fact kept)
    show "ok_recipientEmail b2 = person_email r"
      if "ok_of (fst (POST w1 e2 req2)) = Some b2" for b2 using second [OF that] by simp
    show "\<exists>a\<in>set (awards (db (snd (POST w1 e2 req2)))).
            award_id a = view_id (ok_award b2) \<and> award_person_id a = person_id r"
      if "ok_of (fst (POST w1 e2 req2)) = Some b2" for b2 using second [OF that] by simp
  qed
  then have "\<exists>r. filter (\<lambda>x. person_email x = toLowerCase (email p1)) (people (db w1)) = [r]
           \<and> matching_people w1 p2 = [r]
           \<and> (db_fault e2 Person_lookup = None
                \<longrightarrow> upsertPerson w1 e2 p2 = (Inr (person_id r), w1))
           \<and> people (db (snd (POST w1 e2 req2))) = people (db w1)
           \<and> (\<forall>b2. ok_of (fst (POST w1 e2 req2)) = Some b2
                 \<longrightarrow> ok_recipientEmail b2 = person_email r
                     \<and> (\<exists>a\<in>set (awards (db (snd (POST w1 e2 req2)))).
                           award_id a = view_id (ok_award b2)
                           \<and> award_person_id a = person_id r))"
    by (rule exI)
  ultimately show ?thesis using t1 t2 by (intro conjI)
qed

theorem accepted_addresses_share_person_witness:
  "people (db (snd (POST (snd (POST example_world example_env example_request))
                      example_env_later
                      \<lparr>request_json = Some (JObject [(''name'', JString ''Jane D.''),
                                                      (''email'', JString ''Jane@X.com''),
                                                      (''courseId'', JString ''gsp'')]),
                       request_origin = ''https://badges.example''\<rparr>)))
     = [\<lparr>person_id = ''person-1'', person_name = ''Jane Doe'', person_email = ''jane@x.com''\<rparr>]
   \<and> map_option ok_recipientEmail
       (ok_of (fst (POST (snd (POST example_world example_env example_request))
                      example_env_later
                      \<lparr>request_json = Some (JObject [(''name'', JString ''Jane D.''),
                                                      (''email'', JString ''Jane@X.com''),
                                                      (''courseId'', JString ''gsp'')]),
                       request_origin = ''https://badges.example''\<rparr>)))
     = Some ''jane@x.com''
   \<and> map award_person_id
       (awards (db (snd (POST (snd (POST example_world example_env example_request))
                      example_env_later
                      \<lparr>request_json = Some (JObject [(''name'', JString ''Jane D.''),
                                                      (''email'', JString ''Jane@X.com''),
                                                      (''courseId'', JString ''gsp'')]),
                       request_origin = ''https://badges.example''\<rparr>))))
     = [''person-1'']"
proof -
  let ?w1 = "snd (POST example_world example_env example_request)"
  let ?j1 = "JObject [(''name'', JString ''Jane Doe''), (''email'', JString ''jane@x.com''),
                      (''courseId'', JString ''gsp'')]"
  let ?j2 = "JObject [(''name'', JString ''Jane D.''), (''email'', JString ''Jane@X.com''),
                      (''courseId'', JString ''gsp'')]"
  let ?req2 = "\<lparr>request_json = Some ?j2, request_origin = ''https://badges.example''\<rparr>"
  let ?p1 = "\<lparr>name = ''Jane Doe'', email = ''jane@x.com'', badgeSlug = None,
              courseId = Some ''gsp'', courseName = None, personalizedDescription = None\<rparr>"
  let ?p2 = "\<lparr>name = ''Jane D.'', email = ''Jane@X.com'', badgeSlug = None,
              courseId = Some ''gsp'', courseName = None, personalizedDescription = None\<rparr>"
  have format: "is_email example_env = z_email" "is_email example_env_later = z_email"
    by (simp_all add: example_env_later_def example_env_def)
  have j1: "request_json example_request = Some ?j1" by (simp add: example_request_def)
  have p1: "parsePayload (is_email example_env) ?j1 = Some ?p1" by code_simp
  have j2: "request_json ?req2 = Some ?j2" by simp
  have p2: "parsePayload (is_email example_env_later) ?j2 = Some ?p2" by code_simp
  have eq: "toLowerCase (trim (email ?p2)) = toLowerCase (trim (email ?p1))" by code_simp
  have "map_option ok_recipientEmail
          (ok_of (fst (POST example_world example_env example_request))) = Some ''jane@x.com''"
    by code_simp
  then obtain b1 where b1: "ok_of (fst (POST example_world example_env example_request)) = Some b1"
    by auto
  have fresh: "new_person_id example_env \<noteq> []" by (simp add: example_env_def)
  have ids: "\<forall>x\<in>set (people (db example_world)). person_id x \<noteq> []"
    by (simp add: example_world_def)
  from accepted_addresses_share_person [OF format j1 p1 j2 p2 eq b1 refl fresh ids]
  have kept: "people (db (snd (POST ?w1 example_env_later ?req2))) = people (db ?w1)"
    by (elim conjE exE)
  have rows: "people (db ?w1)
     = [\<lparr>person_id = ''person-1'', person_name = ''Jane Doe'', person_email = ''jane@x.com''\<rparr>]"
    by code_simp
  have second: "map_option ok_recipientEmail (ok_of (fst (POST ?w1 example_env_later ?req2)))
     = Some ''jane@x.com''"
    by code_simp
  have awards: "map award_person_id (awards (db (snd (POST ?w1 example_env_later ?req2))))
     = [''person-1'']"
    by code_simp
  from kept rows second awards show ?thesis by simp
qed

text \<open>
  C6, as stated, includes addresses with white space around them, and names
  \<^verbatim>\<open>jane@x.com\<close> between two spaces beside \<^verbatim>\<open>Jane@X.com\<close>. The two are equal after trimming and
  lower-casing, and the second is stored as \<^verbatim>\<open>jane@x.com\<close>; but the first fails the
  schema's format check and is answered 400: no person is stored for it, and where the
  person is registered already it is not found and no award is issued.
\<close>

theorem padded_address_rejected_counterexample:
  "toLowerCase (trim '' jane@x.com '') = toLowerCase (trim ''Jane@X.com'')
   \<and> map person_email
       (people (db (snd (POST example_world example_env
          \<lparr>request_json = Some (JObject [(''name'', JString ''Jane Doe''),
                                          (''email'', JString ''Jane@X.com''),
                                          (''courseId'', JString ''gsp'')]),
           request_origin = ''https://badges.example''\<rparr>))))
     = [''jane@x.com'']
   \<and> fst (POST example_world example_env
          \<lparr>request_json = Some (JObject [(''name'', JString ''Jane Doe''),
                                          (''email'', JString '' jane@x.com ''),
                                          (''courseId'', JString ''gsp'')]),
           request_origin = ''https://badges.example''\<rparr>)
     = Returned (jsonResponse
         (Error_body ''Invalid payload - must be either Supabase webhook or direct API format''
            Validation_issues) 400)
   \<and> people (db (snd (POST example_world example_env
          \<lparr>request_json = Some (JObject [(''name'', JString ''Jane Doe''),
                                          (''email'', JString '' jane@x.com ''),
                                          (''courseId'', JString ''gsp'')]),
           request_origin = ''https://badges.example''\<rparr>))) = []
   \<and> map_option ok_recipientEmail
       (ok_of (fst (POST example_world_registered example_env
          \<lparr>request_json = Some (JObject [(''name'', JString ''Jane Doe''),
                                          (''email'', JString '' jane@x.com ''),
                                          (''courseId'', JString ''gsp'')]),
           request_origin = ''https://badges.example''\<rparr>))) = None
   \<and> awards (db (snd (POST example_world_registered example_env
          \<lparr>request_json = Some (JObject [(''name'', JString ''Jane Doe''),
                                          (''email'', JString '' jane@x.com ''),
                                          (''courseId'', JString ''gsp'')]),
           request_origin = ''https://badges.example''\<rparr>))) = []"
  by code_simp

section \<open>The personalized description\<close>

lemma describe_cases:
  "(\<forall>c. courseName p = Some c \<and> c \<noteq> []
      \<longrightarrow> describe p = Some (JString (''Recognized for successfully completing the '' @ c
                                       @ '' certification program.'')))
   \<and> (courseName p = None \<or> courseName p = Some []
      \<longrightarrow> describe p = personalizedDescription p)"
  by (auto simp: describe_def)

lemma issueAward_echo:
  assumes "ok_of (fst (issueAward w e origin p)) = Some b"
  shows "view_personalizedDescription (ok_award b) = describe p"
proof -
  from assms obtain r where "fst (issueAward w e origin p) = Returned r"
    "response_body r = Ok_body b" by (auto simp: ok_of_Some)
  then have "issueAward w e origin p = (Returned r, snd (issueAward w e origin p))"
    by (simp add: prod_eq_iff)
  from issueAward_ok [OF this \<open>response_body r = Ok_body b\<close>] show ?thesis by blast
qed

lemma issueAward_awards:
  "awards (db (snd (issueAward w e origin p))) = awards (db w)
   \<or> (\<exists>a. awards (db (snd (issueAward w e origin p))) = awards (db w) @ [a]
         \<and> award_personalized_description a
             = (if describe p = Some JNull then None else describe p))"
proof -
  from issueAward_db [of w e origin p] show ?thesis
  proof
    assume "db (snd (issueAward w e origin p)) = db w"
    then show ?thesis by simp
  next
    assume "\<exists>w0 s badge pid wp res wa.
         getSupabaseAdminClient w e = Inr w0
         \<and> lookupBadge w0 e s = Inr badge
         \<and> upsertPerson w0 e p = (Inr pid, wp)
         \<and> upsertAward wp e pid badge (describe p) = (res, wa)
         \<and> db (snd (issueAward w e origin p)) = db wa"
    then obtain w0 s badge pid wp res wa where
      c: "getSupabaseAdminClient w e = Inr w0"
      and up: "upsertPerson w0 e p = (Inr pid, wp)"
      and ua: "upsertAward wp e pid badge (describe p) = (res, wa)"
      and fin: "db (snd (issueAward w e origin p)) = db wa"
      by blast
    from getSupabaseAdminClient_frame [OF c] upsertPerson_frame [OF up]
    have "awards (db wp) = awards (db w)" by simp
    with upsertAward_effect [OF ua] fin show ?thesis by auto
  qed
qed

text \<open>
  C10 (amended): for every accepted payload of either shape, \<open>describe\<close> is the description the
  request uses. With a non-empty course name it is the generated sentence, and whatever
  description the payload carried is discarded; with the course name absent or empty it is
  the payload's own description. It is what the 200 response echoes, and what an award
  inserted by the request stores (a JSON null as the column's null).
\<close>

theorem personalized_description_source:
  assumes j: "request_json req = Some j" and p: "parsePayload (is_email e) j = Some p"
  shows "(\<forall>c. courseName p = Some c \<and> c \<noteq> []
            \<longrightarrow> describe p = Some (JString (''Recognized for successfully completing the '' @ c
                                             @ '' certification program.'')))
       \<and> (courseName p = None \<or> courseName p = Some []
            \<longrightarrow> describe p = personalizedDescription p)
       \<and> (\<forall>b. ok_of (fst (POST w e req)) = Some b
            \<longrightarrow> view_personalizedDescription (ok_award b) = describe p)
       \<and> (awards (db (snd (POST w e req))) = awards (db w)
          \<or> (\<exists>a. awards (db (snd (POST w e req))) = awards (db w) @ [a]
                \<and> award_personalized_description a
                    = (if describe p = Some JNull then None else describe p)))"
proof -
  have post: "POST w e req = issueAward w e (request_origin req) p"
    using j p by (simp add: POST_def)
  from describe_cases [of p] issueAward_echo [of w e "request_origin req" p]
    issueAward_awards [of w e "request_origin req" p] post
  show ?thesis by auto
qed

theorem personalized_description_source_witness:
  "map_option (view_personalizedDescription \<circ> ok_award)
     (ok_of (fst (POST example_world example_env
                    (example_request_described (Some ''Carbon Aware Computing'')))))
     = Some (Some (JString
         ''Recognized for successfully completing the Carbon Aware Computing certification program.''))
   \<and> map award_personalized_description
        (awards (db (snd (POST example_world example_env
                            (example_request_described (Some ''Carbon Aware Computing''))))))
     = [Some (JString
         ''Recognized for successfully completing the Carbon Aware Computing certification program.'')]
   \<and> map_option (view_personalizedDescription \<circ> ok_award)
       (ok_of (fst (POST example_world example_env (example_request_described None))))
     = Some (Some (JString ''Top of the 2025 cohort.''))"
proof -
  let ?r1 = "example_request_described (Some ''Carbon Aware Computing'')"
  let ?r2 = "example_request_described None"
  let ?p = "\<lparr>name = ''Jane Doe'', email = ''jane@x.com'', badgeSlug = Some ''gsp'',
             courseId = None, courseName = Some ''Carbon Aware Computing'',
             personalizedDescription = Some (JString ''Top of the 2025 cohort.'')\<rparr>"
  let ?q = "?p\<lparr>courseName := None\<rparr>"
  let ?d = "Some (JString
         ''Recognized for successfully completing the Carbon Aware Computing certification program.'')"
  have j1: "request_json ?r1 = Some (JObject
        [(''name'', JString ''Jane Doe''), (''email'', JString ''jane@x.com''),
          (''badgeSlug'', JString ''gsp''), (''courseName'', JString ''Carbon Aware Computing''),
          (''personalizedDescription'', JString ''Top of the 2025 cohort.'')])"
    by (simp add: example_request_described_def)
  have p1: "parsePayload (is_email example_env) (JObject
        [(''name'', JString ''Jane Doe''), (''email'', JString ''jane@x.com''),
          (''badgeSlug'', JString ''gsp''), (''courseName'', JString ''Carbon Aware Computing''),
          (''personalizedDescription'', JString ''Top of the 2025 cohort.'')]) = Some ?p"
    by code_simp
  have j2: "request_json ?r2 = Some (JObject
        [(''name'', JString ''Jane Doe''), (''email'', JString ''jane@x.com''),
          (''badgeSlug'', JString ''gsp''),
          (''personalizedDescription'', JString ''Top of the 2025 cohort.'')])"
    by (simp add: example_request_described_def)
  have p2: "parsePayload (is_email example_env) (JObject
        [(''name'', JString ''Jane Doe''), (''email'', JString ''jane@x.com''),
          (''badgeSlug'', JString ''gsp''),
          (''personalizedDescription'', JString ''Top of the 2025 cohort.'')]) = Some ?q"
    by code_simp
  have ok1: "ok_of (fst (POST example_world example_env ?r1)) \<noteq> None" by code_simp
  have ok2: "ok_of (fst (POST example_world example_env ?r2)) \<noteq> None" by code_simp
  have rows: "length (awards (db (snd (POST example_world example_env ?r1)))) = 1
              \<and> awards (db example_world) = []" by code_simp
  note t1 = personalized_description_source [OF j1 p1, of example_world]
  note t2 = personalized_description_source [OF j2 p2, of example_world]
  from t1 have d1: "describe ?p = ?d" by simp
  from t2 have d2: "describe ?q = Some (JString ''Top of the 2025 cohort.'')" by simp
  from t1 ok1 d1 have a: "map_option (view_personalizedDescription \<circ> ok_award)
     (ok_of (fst (POST example_world example_env ?r1))) = Some ?d" by auto
  from t2 ok2 d2 have c: "map_option (view_personalizedDescription \<circ> ok_award)
       (ok_of (fst (POST example_world example_env ?r2)))
     = Some (Some (JString ''Top of the 2025 cohort.''))" by auto
  from t1 rows d1 have b: "map award_personalized_description
        (awards (db (snd (POST example_world example_env ?r1)))) = [?d]" by auto
  from a b c show ?thesis by simp
qed

text \<open>
  C10, as stated, lets a payload's own description take effect only when the course name
  is absent. A direct payload whose course name is present and empty passes the schema
  (\<^verbatim>\<open>z.string().optional()\<close>), and its own description is used and echoed.
\<close>

theorem personalized_description_empty_course_counterexample:
  "map_option (\<lambda>p. (courseName p, describe p))
     (parsePayload (is_email example_env)
        (JObject [(''name'', JString ''Jane Doe''), (''email'', JString ''jane@x.com''),
                  (''badgeSlug'', JString ''gsp''), (''courseName'', JString []),
                  (''personalizedDescription'', JString ''Top of the 2025 cohort.'')]))
     = Some (Some [], Some (JString ''Top of the 2025 cohort.''))
   \<and> map_option (view_personalizedDescription \<circ> ok_award)
       (ok_of (fst (POST example_world example_env (example_request_described (Some [])))))
     = Some (Some (JString ''Top of the 2025 cohort.''))"
  by code_simp

section \<open>Certificate persistence\<close>

lemma upload_None:
  assumes "upload w e b path content opts = (None, w')"
  shows "storage_fault e Upload = None \<and> buckets (storage w) b \<noteq> None
         \<and> buckets (storage w') = buckets (storage w)
         \<and> objects (storage w') = (objects (storage w))((b, path) \<mapsto>
              \<lparr>object_body = content, object_contentType = contentType opts,
               object_cacheControl = cacheControl opts\<rparr>)
         \<and> supabaseAdminClient w' = supabaseAdminClient w"
  using assms by (auto simp: upload_def split: option.splits if_splits)

lemma upload_upsert:
  assumes "storage_fault e Upload = None" "buckets (storage w) b \<noteq> None" "upsert opts"
  shows "fst (upload w e b path content opts) = None"
  using assms by (auto simp: upload_def split: option.splits)

lemma ensurePublicBucket_storage:
  assumes "ensurePublicBucket w e = Inr w'"
  shows "objects (storage w') = objects (storage w)
         \<and> (\<forall>b. buckets (storage w) b \<noteq> None \<longrightarrow> buckets (storage w') b \<noteq> None)"
  using assms
  by (auto simp: ensurePublicBucket_def getBucket_def createBucket_def
           split: sum.splits option.splits prod.splits if_splits
           dest!: getSupabaseAdminClient_frame)

lemma ensurePublicBucket_present:
  assumes "supabaseAdminClient w" "storage_fault e Get_bucket = None"
    and "buckets (storage w) CERT_BUCKET \<noteq> None"
  shows "ensurePublicBucket w e = Inr w"
  using assms
  by (auto simp: ensurePublicBucket_def getBucket_def getSupabaseAdminClient_cached
           split: option.splits)

lemma downloadTemplateFromStorage_storage:
  assumes "downloadTemplateFromStorage w e = (r, w')"
  shows "objects (storage w') = objects (storage w)
         \<and> (\<forall>b. buckets (storage w) b \<noteq> None \<longrightarrow> buckets (storage w') b \<noteq> None)"
  using assms
  by (auto simp: downloadTemplateFromStorage_def
           split: sum.splits option.splits prod.splits if_splits
           dest!: getSupabaseAdminClient_frame ensurePublicBucket_storage)

lemma generateCertificatePdf_storage:
  assumes "generateCertificatePdf w e opts = (r, w')"
  shows "objects (storage w') = objects (storage w)
         \<and> (\<forall>b. buckets (storage w) b \<noteq> None \<longrightarrow> buckets (storage w') b \<noteq> None)"
  using assms
  by (auto simp: generateCertificatePdf_def buildCertificateHtml_def Let_def
           split: sum.splits prod.splits
           dest!: downloadTemplateFromStorage_storage)

lemma generateCertificatePdf_rendered:
  assumes "generateCertificatePdf w e opts = (Inr pdf, w')"
  shows "\<exists>html. render_pdf e html = Inr pdf"
  using assms
  by (auto simp: generateCertificatePdf_def Let_def split: sum.splits prod.splits)

lemma generateCertificateAndUpload_Inr:
  assumes "generateCertificateAndUpload w e opts = (Inr c, w')"
  shows "\<exists>pdf w1 w2 w3.
           generateCertificatePdf w e opts = (Inr pdf, w1)
           \<and> ensurePublicBucket w1 e = Inr w2
           \<and> getSupabaseAdminClient w2 e = Inr w3
           \<and> upload w3 e CERT_BUCKET (''awards/'' @ verificationCode opts @ ''.pdf'') pdf
                \<lparr>contentType = ''application/pdf'', cacheControl = ''0'', upsert = True\<rparr>
               = (None, w')
           \<and> c = \<lparr>publicUrl = getPublicUrl e CERT_BUCKET
                                (''awards/'' @ verificationCode opts @ ''.pdf''),
                   storagePath = ''awards/'' @ verificationCode opts @ ''.pdf'',
                   issuedDateLabel = formatIssuedDate e (issuedAt opts)\<rparr>"
  using assms
  by (auto simp: generateCertificateAndUpload_def Let_def
           split: sum.splits prod.splits option.splits)

lemma generateCertificateAndUpload_stored:
  assumes "generateCertificateAndUpload w e opts = (Inr c, w')"
  shows "stored_under_code w e (verificationCode opts) c w'"
proof -
  from generateCertificateAndUpload_Inr [OF assms] obtain pdf w1 w2 w3 where
    g: "generateCertificatePdf w e opts = (Inr pdf, w1)"
    and b: "ensurePublicBucket w1 e = Inr w2"
    and cl: "getSupabaseAdminClient w2 e = Inr w3"
    and u: "upload w3 e CERT_BUCKET (''awards/'' @ verificationCode opts @ ''.pdf'') pdf
                \<lparr>contentType = ''application/pdf'', cacheControl = ''0'', upsert = True\<rparr>
               = (None, w')"
    and c: "c = \<lparr>publicUrl = getPublicUrl e CERT_BUCKET
                                (''awards/'' @ verificationCode opts @ ''.pdf''),
                   storagePath = ''awards/'' @ verificationCode opts @ ''.pdf'',
                   issuedDateLabel = formatIssuedDate e (issuedAt opts)\<rparr>"
    by blast
  from generateCertificatePdf_storage [OF g] ensurePublicBucket_storage [OF b]
    getSupabaseAdminClient_frame [OF cl]
  have o3: "objects (storage w3) = objects (storage w)" by simp
  from generateCertificatePdf_rendered [OF g] obtain html where
    html: "render_pdf e html = Inr pdf" ..
  from upload_None [OF u] o3 html c show ?thesis
    by (auto simp: stored_under_code_def CERT_BUCKET_def)
qed

lemma generateCertificateAndUpload_bundled_Inr:
  assumes "generateCertificateAndUpload_bundled w e opts = (Inr c, w')"
  shows "\<exists>pdf w2 w3.
           generateCertificatePdf_bundled e opts = Inr pdf
           \<and> ensurePublicBucket w e = Inr w2
           \<and> getSupabaseAdminClient w2 e = Inr w3
           \<and> upload w3 e CERT_BUCKET (''awards/'' @ verificationCode opts @ ''.pdf'') pdf
                \<lparr>contentType = ''application/pdf'', cacheControl = ''0'', upsert = True\<rparr>
               = (None, w')
           \<and> c = \<lparr>publicUrl = getPublicUrl e CERT_BUCKET
                                (''awards/'' @ verificationCode opts @ ''.pdf''),
                   storagePath = ''awards/'' @ verificationCode opts @ ''.pdf'',
                   issuedDateLabel = formatIssuedDate e (issuedAt opts)\<rparr>"
  using assms
  by (auto simp: generateCertificateAndUpload_bundled_def Let_def
           split: sum.splits prod.splits option.splits)

lemma generateCertificatePdf_bundled_rendered:
  assumes "generateCertificatePdf_bundled e opts = Inr pdf"
  shows "\<exists>html. render_pdf e html = Inr pdf"
  using assms
  by (auto simp: generateCertificatePdf_bundled_def Let_def split: sum.splits)

lemma generateCertificateAndUpload_bundled_stored:
  assumes "generateCertificateAndUpload_bundled w e opts = (Inr c, w')"
  shows "stored_under_code w e (verificationCode opts) c w'"
proof -
  from generateCertificateAndUpload_bundled_Inr [OF assms] obtain pdf w2 w3 where
    g: "generateCertificatePdf_bundled e opts = Inr pdf"
    and b: "ensurePublicBucket w e = Inr w2"
    and cl: "getSupabaseAdminClient w2 e = Inr w3"
    and u: "upload w3 e CERT_BUCKET (''awards/'' @ verificationCode opts @ ''.pdf'') pdf
                \<lparr>contentType = ''application/pdf'', cacheControl = ''0'', upsert = True\<rparr>
               = (None, w')"
    and c: "c = \<lparr>publicUrl = getPublicUrl e CERT_BUCKET
                                (''awards/'' @ verificationCode opts @ ''.pdf''),
                   storagePath = ''awards/'' @ verificationCode opts @ ''.pdf'',
                   issuedDateLabel = formatIssuedDate e (issuedAt opts)\<rparr>"
    by blast
  from ensurePublicBucket_storage [OF b] getSupabaseAdminClient_frame [OF cl]
  have o3: "objects (storage w3) = objects (storage w)" by simp
  from generateCertificatePdf_bundled_rendered [OF g] obtain html where
    html: "render_pdf e html = Inr pdf" ..
  from upload_None [OF u] o3 html c show ?thesis
    by (auto simp: stored_under_code_def CERT_BUCKET_def)
qed

lemma downloadTemplateFromStorage_Inr:
  assumes "downloadTemplateFromStorage w e = (Inr t, w1)" "storage_fault e Download = None"
  shows "\<exists>obj. objects (storage w1) (CERT_BUCKET, TEMPLATE_STORAGE_PATH) = Some obj
               \<and> object_body obj = t"
  using assms
  by (auto simp: downloadTemplateFromStorage_def download_def
           split: sum.splits option.splits prod.splits if_splits)

lemma downloadTemplateFromStorage_settled:
  assumes "supabaseAdminClient w" "buckets (storage w) CERT_BUCKET \<noteq> None"
    and "storage_fault e Get_bucket = None" "storage_fault e Download = None"
    and "objects (storage w) (CERT_BUCKET, TEMPLATE_STORAGE_PATH) = Some obj"
  shows "downloadTemplateFromStorage w e = (Inr (object_body obj), w)"
  using assms
  by (simp add: downloadTemplateFromStorage_def getSupabaseAdminClient_cached
                ensurePublicBucket_present download_def)

lemma generateCertificatePdf_template:
  assumes "generateCertificatePdf w e opts = (Inr pdf, w1)"
  shows "\<exists>t. downloadTemplateFromStorage w e = (Inr t, w1)"
  using assms
  by (auto simp: generateCertificatePdf_def buildCertificateHtml_def Let_def
           split: sum.splits prod.splits)

lemma generateCertificatePdf_same_template:
  assumes "downloadTemplateFromStorage w e = (Inr t, w1)"
    and "downloadTemplateFromStorage w' e = (Inr t, w1')"
  shows "fst (generateCertificatePdf w' e opts) = fst (generateCertificatePdf w e opts)
         \<and> snd (generateCertificatePdf w' e opts) = w1'"
  using assms
  by (simp add: generateCertificatePdf_def buildCertificateHtml_def Let_def
           split: sum.splits)

lemma template_path_differs:
  "(CERT_BUCKET, ''awards/'' @ code @ ''.pdf'') \<noteq> (CERT_BUCKET, TEMPLATE_STORAGE_PATH)"
  by (simp add: TEMPLATE_STORAGE_PATH_def)

lemma generateCertificateAndUpload_again:
  assumes first: "generateCertificateAndUpload w e opts = (Inr c, w')"
    and nofault: "\<forall>call. storage_fault e call = None"
  shows "\<exists>w''. generateCertificateAndUpload w' e opts = (Inr c, w'')"
proof -
  let ?path = "''awards/'' @ verificationCode opts @ ''.pdf''"
  let ?o = "\<lparr>contentType = ''application/pdf'', cacheControl = ''0'', upsert = True\<rparr>"
  from generateCertificateAndUpload_Inr [OF first] obtain pdf w1 w2 w3 where
    g: "generateCertificatePdf w e opts = (Inr pdf, w1)"
    and b: "ensurePublicBucket w1 e = Inr w2"
    and cl: "getSupabaseAdminClient w2 e = Inr w3"
    and u: "upload w3 e CERT_BUCKET ?path pdf ?o = (None, w')"
    and c: "c = \<lparr>publicUrl = getPublicUrl e CERT_BUCKET ?path, storagePath = ?path,
                   issuedDateLabel = formatIssuedDate e (issuedAt opts)\<rparr>"
    by blast
  from generateCertificatePdf_template [OF g] obtain t where
    d: "downloadTemplateFromStorage w e = (Inr t, w1)" ..
  from downloadTemplateFromStorage_Inr [OF d] nofault obtain obj where
    obj: "objects (storage w1) (CERT_BUCKET, TEMPLATE_STORAGE_PATH) = Some obj"
      "object_body obj = t" by auto
  note fu = upload_None [OF u]
  from getSupabaseAdminClient_frame [OF cl] fu have client: "supabaseAdminClient w'" by simp
  from fu getSupabaseAdminClient_frame [OF cl]
  have bucket: "buckets (storage w') CERT_BUCKET \<noteq> None" by simp
  from ensurePublicBucket_storage [OF b] getSupabaseAdminClient_frame [OF cl]
  have "objects (storage w3) = objects (storage w1)" by simp
  with fu obj template_path_differs [of "verificationCode opts"]
  have tmpl: "objects (storage w') (CERT_BUCKET, TEMPLATE_STORAGE_PATH) = Some obj"
    by (simp del: fun_upd_apply add: fun_upd_other)
  from downloadTemplateFromStorage_settled [OF client bucket _ _ tmpl] nofault obj
  have d': "downloadTemplateFromStorage w' e = (Inr t, w')" by simp
  from generateCertificatePdf_same_template [OF d d', of opts] g
  have g': "generateCertificatePdf w' e opts = (Inr pdf, w')" by (simp add: prod_eq_iff)
  from ensurePublicBucket_present [OF client _ bucket] nofault
  have b': "ensurePublicBucket w' e = Inr w'" by simp
  note cl' = getSupabaseAdminClient_cached [OF client, of e]
  from upload_upsert [of e w' CERT_BUCKET ?o ?path pdf] nofault bucket
  have "fst (upload w' e CERT_BUCKET ?path pdf ?o) = None" by simp
  then obtain w'' where u': "upload w' e CERT_BUCKET ?path pdf ?o = (None, w'')"
    by (cases "upload w' e CERT_BUCKET ?path pdf ?o") simp
  from g' b' cl' u' c have "generateCertificateAndUpload w' e opts = (Inr c, w'')"
    by (simp add: generateCertificateAndUpload_def Let_def)
  then show ?thesis ..
qed

lemma generateCertificateAndUpload_bundled_again:
  assumes first: "generateCertificateAndUpload_bundled w e opts = (Inr c, w')"
    and nofault: "\<forall>call. storage_fault e call = None"
  shows "\<exists>w''. generateCertificateAndUpload_bundled w' e opts = (Inr c, w'')"
proof -
  let ?path = "''awards/'' @ verificationCode opts @ ''.pdf''"
  let ?o = "\<lparr>contentType = ''application/pdf'', cacheControl = ''0'', upsert = True\<rparr>"
  from generateCertificateAndUpload_bundled_Inr [OF first] obtain pdf w2 w3 where
    g: "generateCertificatePdf_bundled e opts = Inr pdf"
    and b: "ensurePublicBucket w e = Inr w2"
    and cl: "getSupabaseAdminClient w2 e = Inr w3"
    and u: "upload w3 e CERT_BUCKET ?path pdf ?o = (None, w')"
    and c: "c = \<lparr>publicUrl = getPublicUrl e CERT_BUCKET ?path, storagePath = ?path,
                   issuedDateLabel = formatIssuedDate e (issuedAt opts)\<rparr>"
    by blast
  note fu = upload_None [OF u]
  from getSupabaseAdminClient_frame [OF cl] fu have client: "supabaseAdminClient w'" by simp
  from fu getSupabaseAdminClient_frame [OF cl]
  have bucket: "buckets (storage w') CERT_BUCKET \<noteq> None" by simp
  from ensurePublicBucket_present [OF client _ bucket] nofault
  have b': "ensurePublicBucket w' e = Inr w'" by simp
  note cl' = getSupabaseAdminClient_cached [OF client, of e]
  from upload_upsert [of e w' CERT_BUCKET ?o ?path pdf] nofault bucket
  have "fst (upload w' e CERT_BUCKET ?path pdf ?o) = None" by simp
  then obtain w'' where u': "upload w' e CERT_BUCKET ?path pdf ?o = (None, w'')"
    by (cases "upload w' e CERT_BUCKET ?path pdf ?o") simp
  from g b' cl' u' c have "generateCertificateAndUpload_bundled w' e opts = (Inr c, w'')"
    by (simp add: generateCertificateAndUpload_bundled_def Let_def)
  then show ?thesis ..
qed

text \<open>
  C8: in both variants of the module, a successful \<open>generateCertificateAndUpload\<close> has stored
  the rendered document at exactly \<^verbatim>\<open>awards/{verificationCode}.pdf\<close> in the certificates bucket,
  with cache control 0, replacing whatever object was there and touching no other object,
  and returns that path and the storage client's public URL for it. Any later successful
  generation for the same verification code returns the same path and the same URL; and
  when the storage service reports no failure, generating again with the same inputs
  succeeds with the same result although the object now exists: the upload is an upsert.
\<close>

theorem certificate_stored_by_verification_code:
  "(generateCertificateAndUpload w e options = (Inr c, w') \<longrightarrow>
      stored_under_code w e (verificationCode options) c w'
      \<and> (\<forall>e2 o2 c2 w2.
            generateCertificateAndUpload w' e2 o2 = (Inr c2, w2)
            \<and> verificationCode o2 = verificationCode options
            \<and> getPublicUrl e2 = getPublicUrl e
          \<longrightarrow> storagePath c2 = storagePath c \<and> publicUrl c2 = publicUrl c)
      \<and> ((\<forall>call. storage_fault e call = None)
          \<longrightarrow> (\<exists>w2. generateCertificateAndUpload w' e options = (Inr c, w2))))
   \<and> (generateCertificateAndUpload_bundled w e options = (Inr c, w') \<longrightarrow>
      stored_under_code w e (verificationCode options) c w'
      \<and> (\<forall>e2 o2 c2 w2.
            generateCertificateAndUpload_bundled w' e2 o2 = (Inr c2, w2)
            \<and> verificationCode o2 = verificationCode options
            \<and> getPublicUrl e2 = getPublicUrl e
          \<longrightarrow> storagePath c2 = storagePath c \<and> publicUrl c2 = publicUrl c)
      \<and> ((\<forall>call. storage_fault e call = None)
          \<longrightarrow> (\<exists>w2. generateCertificateAndUpload_bundled w' e options = (Inr c, w2))))"
proof (intro conjI impI allI)
  assume a: "generateCertificateAndUpload w e options = (Inr c, w')"
  from generateCertificateAndUpload_stored [OF a]
  show "stored_under_code w e (verificationCode options) c w'" .
  {
    fix e2 o2 c2 w2
    assume b: "generateCertificateAndUpload w' e2 o2 = (Inr c2, w2)
               \<and> verificationCode o2 = verificationCode options
               \<and> getPublicUrl e2 = getPublicUrl e"
    with generateCertificateAndUpload_stored [of w' e2 o2 c2 w2]
      generateCertificateAndUpload_stored [OF a]
    show "storagePath c2 = storagePath c" and "publicUrl c2 = publicUrl c"
      by (simp_all add: stored_under_code_def)
  }
  assume "\<forall>call. storage_fault e call = None"
  from generateCertificateAndUpload_again [OF a this]
  show "\<exists>w2. generateCertificateAndUpload w' e options = (Inr c, w2)" .
next
  assume a: "generateCertificateAndUpload_bundled w e options = (Inr c, w')"
  from generateCertificateAndUpload_bundled_stored [OF a]
  show "stored_under_code w e (verificationCode options) c w'" .
  {
    fix e2 o2 c2 w2
    assume b: "generateCertificateAndUpload_bundled w' e2 o2 = (Inr c2, w2)
               \<and> verificationCode o2 = verificationCode options
               \<and> getPublicUrl e2 = getPublicUrl e"
    with generateCertificateAndUpload_bundled_stored [of w' e2 o2 c2 w2]
      generateCertificateAndUpload_bundled_stored [OF a]
    show "storagePath c2 = storagePath c" and "publicUrl c2 = publicUrl c"
      by (simp_all add: stored_under_code_def)
  }
  assume "\<forall>call. storage_fault e call = None"
  from generateCertificateAndUpload_bundled_again [OF a this]
  show "\<exists>w2. generateCertificateAndUpload_bundled w' e options = (Inr c, w2)" .
qed

theorem certificate_stored_by_verification_code_witness:
  "fst (generateCertificateAndUpload example_world example_env example_options)
     = Inr \<lparr>publicUrl =
               ''https://db.example/storage/v1/object/public/certificates/awards/award-1.pdf'',
             storagePath = ''awards/award-1.pdf'', issuedDateLabel = ''March 1, 2025''\<rparr>
   \<and> fst (generateCertificateAndUpload
            (snd (generateCertificateAndUpload example_world example_env example_options))
            example_env example_options)
     = Inr \<lparr>publicUrl =
               ''https://db.example/storage/v1/object/public/certificates/awards/award-1.pdf'',
             storagePath = ''awards/award-1.pdf'', issuedDateLabel = ''March 1, 2025''\<rparr>
   \<and> map_option object_cacheControl
        (objects (storage (snd (generateCertificateAndUpload example_world example_env
                                  example_options)))
           (''certificates'', ''awards/award-1.pdf'')) = Some ''0''
   \<and> fst (generateCertificateAndUpload_bundled example_world example_env example_options)
     = Inr \<lparr>publicUrl =
               ''https://db.example/storage/v1/object/public/certificates/awards/award-1.pdf'',
             storagePath = ''awards/award-1.pdf'', issuedDateLabel = ''March 1, 2025''\<rparr>
   \<and> fst (generateCertificateAndUpload_bundled
            (snd (generateCertificateAndUpload_bundled example_world example_env example_options))
            example_env example_options)
     = Inr \<lparr>publicUrl =
               ''https://db.example/storage/v1/object/public/certificates/awards/award-1.pdf'',
             storagePath = ''awards/award-1.pdf'', issuedDateLabel = ''March 1, 2025''\<rparr>"
proof -
  let ?c = "\<lparr>publicUrl =
               ''https://db.example/storage/v1/object/public/certificates/awards/award-1.pdf'',
             storagePath = ''awards/award-1.pdf'', issuedDateLabel = ''March 1, 2025''\<rparr>"
  let ?w1 = "snd (generateCertificateAndUpload example_world example_env example_options)"
  let ?w2 = "snd (generateCertificateAndUpload_bundled example_world example_env example_options)"
  have f1: "fst (generateCertificateAndUpload example_world example_env example_options) = Inr ?c"
    by code_simp
  have f2: "fst (generateCertificateAndUpload_bundled example_world example_env example_options)
              = Inr ?c"
    by code_simp
  have code: "verificationCode example_options = ''award-1''"
    by (simp add: example_options_def)
  have nofault: "\<forall>call. storage_fault example_env call = None"
    by (simp add: example_env_def)
  from f1 have r1: "generateCertificateAndUpload example_world example_env example_options
                      = (Inr ?c, ?w1)" by (simp add: prod_eq_iff)
  from f2 have r2: "generateCertificateAndUpload_bundled example_world example_env example_options
                      = (Inr ?c, ?w2)" by (simp add: prod_eq_iff)
  note t = certificate_stored_by_verification_code
             [of example_world example_env example_options ?c]
  from t [of ?w1] r1 nofault
  have s1: "stored_under_code example_world example_env ''award-1'' ?c ?w1"
    and a1: "\<exists>w2. generateCertificateAndUpload ?w1 example_env example_options = (Inr ?c, w2)"
    unfolding code by blast+
  from t [of ?w2] r2 nofault
  have a2: "\<exists>w2. generateCertificateAndUpload_bundled ?w2 example_env example_options
                  = (Inr ?c, w2)"
    by blast
  from s1 have cache: "map_option object_cacheControl
        (objects (storage ?w1) (''certificates'', ''awards/award-1.pdf'')) = Some ''0''"
    by (auto simp: stored_under_code_def)
  from a1 have g1: "fst (generateCertificateAndUpload ?w1 example_env example_options) = Inr ?c"
    by auto
  from a2 have g2: "fst (generateCertificateAndUpload_bundled ?w2 example_env example_options)
                      = Inr ?c"
    by auto
  from f1 f2 g1 g2 cache show ?thesis by simp
qed

section \<open>Notification on a replayed signal\<close>

text \<open>
  C2 says that a request whose award already existed is answered with the email status
  skipped, reason "existing award reused", and that no delivery is attempted. The handler
  sets that status when it declares \<^verbatim>\<open>emailStatus\<close> and then overwrites it with the result
  of \<^verbatim>\<open>sendAwardNotification\<close>, which it calls on every path. Here the award exists before
  the request; the response reports the email as sent, and one message has been handed to
  the provider.
\<close>

theorem replay_sends_notification_again:
  "map award_id (awards (db example_world_awarded)) = [''award-0'']
   \<and> map_option (\<lambda>b. (view_id (ok_award b), ok_email b))
        (ok_of (fst (POST example_world_awarded example_env_later example_request)))
     = Some (''award-0'', Sent)
   \<and> outbox example_world_awarded = []
   \<and> map message_to (outbox (snd (POST example_world_awarded example_env_later example_request)))
     = [''jane@x.com'']"
  by code_simp

section \<open>Failures after the award is committed\<close>

text \<open>
  Once the award upsert has succeeded and the description can be interpolated into the
  message, the request ends in the 200 response that names the award, however certificate
  generation and email delivery end: a certificate failure leaves \<^verbatim>\<open>certificateUrl\<close> out,
  and the email status is \<open>Sent\<close> only when the delivery went through.
\<close>

lemma best_effort_steps_keep_success:
  assumes c: "getSupabaseAdminClient w e = Inr w0"
    and s: "resolveBadgeSlug \<lparr>param_badgeSlug = badgeSlug p, param_courseId = courseId p,
                              param_courseName = courseName p\<rparr> = Some s" "truthy_slug s"
    and lb: "lookupBadge w0 e s = Inr badge"
    and up: "upsertPerson w0 e p = (Inr pid, w1)"
    and ua: "upsertAward w1 e pid badge (describe p) = (Inr a, w2)"
    and dsc: "\<forall>d. describe p = Some d \<and> truthy d \<longrightarrow> interpolates d"
  shows "\<exists>b. ok_of (fst (issueAward w e origin p)) = Some b
             \<and> view_id (ok_award b) = award_id a
             \<and> ((\<exists>thrown. fst (generateCertificateAndUpload w2 e
                     \<lparr>recipientName = name p,
                      issuedAt = (case award_issued_at a of Some t \<Rightarrow> t | None \<Rightarrow> now e),
                      verificationCode = award_id a, badgeTitle = badge_name badge\<rparr>)
                   = Inl thrown) \<longrightarrow> view_certificateUrl (ok_award b) = None)
             \<and> (ok_email b = Sent \<longrightarrow> send_result e = Delivered)"
proof -
  let ?opts = "\<lparr>recipientName = name p,
                 issuedAt = (case award_issued_at a of Some t \<Rightarrow> t | None \<Rightarrow> now e),
                 verificationCode = award_id a, badgeTitle = badge_name badge\<rparr>"
  obtain g w3 where g: "generateCertificateAndUpload w2 e ?opts = (g, w3)"
    by (cases "generateCertificateAndUpload w2 e ?opts")
  let ?n = "\<lparr>to = normalizedEmail (email p), notify_recipientName = name p,
             credentialName = badge_name badge,
             notify_verificationCode = award_id a,
             badgeUrl = origin @ ''/awards/'' @ award_id a,
             notify_personalizedDescription = describe p,
             certificateUrl = (case g of Inl thrown \<Rightarrow> None
                               | Inr certificate \<Rightarrow> Some (publicUrl certificate))\<rparr>"
  from dsc have "(resendClient w3 \<or> truthy_var (RESEND_API_KEY e))
         \<and> truthy_var (RESEND_FROM_EMAIL e)
         \<longrightarrow> (\<forall>d. notify_personalizedDescription ?n = Some d \<and> truthy d \<longrightarrow> interpolates d)"
    by simp
  from sendAwardNotification_returns_if [OF this] obtain st w4 where
    n: "sendAwardNotification w3 e ?n = (Inr st, w4)"
    and sent: "st = Sent \<longrightarrow> send_result e = Delivered" by blast
  from c s lb up ua g n sent show ?thesis
    by (cases g) (auto simp: issueAward_def Let_def ok_of_def jsonResponse_def)
qed

text \<open>
  C4 says that nothing after a successful award upsert turns the outcome into an error.
  \<^verbatim>\<open>sendAwardNotification\<close> builds both message bodies before its \<^verbatim>\<open>try\<close>. On the webhook
  shape the description comes from \<^verbatim>\<open>metadata\<close> unvalidated; when it is an object with a
  \<^verbatim>\<open>toString\<close> member of its own, interpolating it throws and the exception leaves
  \<^verbatim>\<open>POST\<close>, after the existing award has been found or, where there was none, a new one
  has been inserted.
\<close>

theorem award_committed_then_exception:
  "fst (POST example_world_awarded example_env example_request_webhook)
     = Threw ''TypeError: Cannot convert object to primitive value''
   \<and> map award_id
        (awards (db (snd (POST example_world_awarded example_env example_request_webhook))))
     = [''award-0'']
   \<and> fst (POST example_world example_env example_request_webhook)
     = Threw ''TypeError: Cannot convert object to primitive value''
   \<and> awards (db example_world) = []
   \<and> map award_id (awards (db (snd (POST example_world example_env example_request_webhook))))
     = [''award-1'']"
  by code_simp

section \<open>Placeholders of the certificate template\<close>

text \<open>
  C7 says that assembly fails with an error whenever a required placeholder is absent from
  the template. \<^verbatim>\<open>replacePlaceholders\<close> tests each placeholder on the text as the earlier
  replacements left it: with a template that has no date placeholder, the name
  "Jane Doe" is refused as it should be, but a name that contains the text of the date
  placeholder is accepted and a document comes out. In the bundled-template variant
  \<^verbatim>\<open>injectBadgeTitle\<close> looks for the upper-cased title anywhere in the text, and finds it in
  the recipient's name when the template has no title to replace.
\<close>

theorem missing_placeholder_goes_unnoticed:
  "\<not> includes_str template_without_date DATE_PLACEHOLDER
   \<and> replacePlaceholders template_without_date ''Jane Doe'' ''March 1, 2025''
        ''Green Software Practitioner''
     = Inl ''Certificate template missing placeholder {Date}''
   \<and> replacePlaceholders template_without_date ''Jane {Date} Doe'' ''March 1, 2025''
        ''Green Software Practitioner''
     = Inr ''<html><head></head><h1>GREEN SOFTWARE PRACTITIONER</h1><p>Jane March 1, 2025 Doe</p></html>''
   \<and> fst (buildCertificateHtml example_world_without_date example_env ''Jane Doe''
             ''March 1, 2025'' ''Green Software Practitioner'')
     = Inl ''Certificate template missing placeholder {Date}''
   \<and> fst (buildCertificateHtml example_world_without_date example_env ''Jane {Date} Doe''
             ''March 1, 2025'' ''Green Software Practitioner'')
     = Inr (''<html><head><base href=\"file:///app/public/\"></head>''
            @ ''<h1>GREEN SOFTWARE PRACTITIONER</h1><p>Jane March 1, 2025 Doe</p></html>'')
   \<and> \<not> includes_str template_without_title ''GREEN SOFTWARE PRACTITIONER''
   \<and> buildCertificateHtml_bundled (example_env\<lparr>read_template := Inr template_without_title\<rparr>)
        ''DOE Consulting'' ''March 1, 2025'' ''Doe''
     = Inr (''<html><head><base href=\"file:///app/public/\"></head>''
            @ ''<p>Awarded to DOE Consulting on March 1, 2025</p></html>'')"
  by code_simp

end
